theory Spec2Isabelle
  imports Main "HOL-Library.Sublist"
begin

section \<open>Data model\<close>

text \<open>
  Byte strings and text are character lists.  Text (a Python \<^verbatim>\<open>str\<close>) is held as the
  bytes of its UTF-8 encoding, a lone surrogate code point being encoded like any other
  code point of three bytes.  A path is the list of its components below the root; a
  relative argument is taken as already resolved against the working directory.
\<close>

type_synonym bytes = string
type_synonym path = "string list"

definition as_posix :: "path \<Rightarrow> string" where
  "as_posix p = (if p = [] then ''/'' else concat (map (\<lambda>c. ''/'' @ c) p))"

definition parent :: "path \<Rightarrow> path" where
  "parent p = butlast p"

definition joinpath :: "path \<Rightarrow> string \<Rightarrow> path" where
  "joinpath p name = p @ [name]"

text \<open>\<^verbatim>\<open>str.endswith\<close>.\<close>

definition endswith :: "string \<Rightarrow> string \<Rightarrow> bool" where
  "endswith s suf = suffix suf s"

text \<open>Decimal rendering of an integer, as \<^verbatim>\<open>%i\<close> and an f-string do.\<close>

definition digit_char :: "nat \<Rightarrow> char" where
  "digit_char d = char_of (48 + d)"

fun str_nat :: "nat \<Rightarrow> string" where
  "str_nat n = (if n < 10 then [digit_char n] else str_nat (n div 10) @ [digit_char (n mod 10)])"

definition str_int :: "int \<Rightarrow> string" where
  "str_int i = (if i < 0 then ''-'' @ str_nat (nat (- i)) else str_nat (nat i))"

subsection \<open>JSON values\<close>

text \<open>
  An object is a dictionary: its members are kept in the order of their first insertion,
  each key once.  A number or literal keeps its text.
\<close>

datatype json =
    JString string
  | JAtom string
  | JArray "json list"
  | JObject "(string \<times> json) list"

subsection \<open>Tag containers and files\<close>

text \<open>
  What a tag container of an MP4 or MP3 file holds under a key: the text values of a
  text atom, the covers of the \<^verbatim>\<open>covr\<close> atom, each with the image format written
  beside its bytes, or an attached-picture frame of an ID3 container.  The comment
  header of an Opus file is a list of pairs of a key and a text value.
\<close>

datatype imageformat = FORMAT_JPEG | FORMAT_PNG

datatype tagval =
    TagText "string list"
  | TagCovers "(imageformat \<times> bytes) list"
  | TagAPIC nat string nat string bytes

type_synonym tags = "string \<rightharpoonup> tagval"

type_synonym vcomment = "(string \<times> string) list"

text \<open>The file classes of the tag library.\<close>

datatype container = MP4 | MP3 | OggOpus

text \<open>
  A file is plain bytes, an MP4 or MP3 file whose tag container may be absent, or an
  Opus file, which always has its comment header.
\<close>

datatype fcontent =
    Blob bytes
  | MP4File "tags option"
  | MP3File "tags option"
  | OpusFile vcomment

datatype event =
    EvMkdir path
  | EvPrint string
  | EvPprint "string list"
  | EvPrintJson json
  | EvLogError string
  | EvRun "string list"
  | EvHttpGet string
  | EvWrite path
  | EvOpen container path
  | EvSave container path

record world =
  files :: "path \<rightharpoonup> fcontent"
  dirs :: "path set"
  log :: "event list"

datatype error =
    Exception string
  | KeyError string
  | TypeError
  | AttributeError
  | ValueError
  | UnicodeDecodeError
  | UnicodeEncodeError
  | OSError path
  | JSONDecodeError
  | RequestException string
  | MutagenError path

text \<open>
  The surroundings of one run: the working directory, the resolved path of the
  downloader binary (module constant \<^verbatim>\<open>YT_DLP_PATH\<close>, and \<^verbatim>\<open>YOUTUBE_DL\<close> of the
  older script), what an HTTP GET of a URL returns (\<open>None\<close>: the transport fails and
  \<^verbatim>\<open>requests.get\<close> raises), and the external downloader: given the command line and
  the world it returns its exit code, its standard output and the world it leaves.
\<close>

record env =
  cwd :: path
  yt_dlp_path :: path
  youtube_dl :: path
  http_get :: "string \<Rightarrow> bytes option"
  downloader :: "string list \<Rightarrow> world \<Rightarrow> (int \<times> bytes) \<times> world"

definition emit :: "event \<Rightarrow> world \<Rightarrow> world" where
  "emit e w = w\<lparr>log := log w @ [e]\<rparr>"

text \<open>
  \<^verbatim>\<open>Path.mkdir(parents=True, exist_ok=True)\<close>: fails when the path or one of its
  ancestors is a regular file, otherwise the path and all its ancestors are directories
  afterwards.
\<close>

definition mkdir_parents :: "path \<Rightarrow> world \<Rightarrow> error + world" where
  "mkdir_parents p w =
     (if list_ex (\<lambda>q. files w q \<noteq> None) (prefixes p) then Inl (OSError p)
      else Inr (emit (EvMkdir p) (w\<lparr>dirs := dirs w \<union> set (prefixes p)\<rparr>)))"

text \<open>\<^verbatim>\<open>subprocess.run(command, shell=False)\<close>.\<close>

definition subprocess_run :: "env \<Rightarrow> string list \<Rightarrow> world \<Rightarrow> (int \<times> bytes) \<times> world" where
  "subprocess_run E command w = downloader E command (emit (EvRun command) w)"

section \<open>Parsing JSON\<close>

text \<open>
  \<^verbatim>\<open>json.loads\<close> of a byte string first decodes it to text, in the encoding it detects
  from the first bytes and with the error handler \<^verbatim>\<open>surrogatepass\<close>, and then scans the
  text.  A failure of the first step is a \<^verbatim>\<open>UnicodeDecodeError\<close>, one of the second a
  \<^verbatim>\<open>JSONDecodeError\<close>.  Limits of the interpreter (recursion depth, the digit limit
  of integer conversion, memory) are not modelled.
\<close>

subsection \<open>Decoding the bytes\<close>

datatype encoding = UTF8 | UTF8_SIG | UTF16 | UTF16_LE | UTF16_BE | UTF32 | UTF32_LE | UTF32_BE

definition detect_encoding :: "bytes \<Rightarrow> encoding" where
  "detect_encoding b =
     (if prefix [CHR 0x00, CHR 0x00, CHR 0xFE, CHR 0xFF] b then UTF32
      else if prefix [CHR 0xFF, CHR 0xFE, CHR 0x00, CHR 0x00] b then UTF32
      else if prefix [CHR 0xFE, CHR 0xFF] b then UTF16
      else if prefix [CHR 0xFF, CHR 0xFE] b then UTF16
      else if prefix [CHR 0xEF, CHR 0xBB, CHR 0xBF] b then UTF8_SIG
      else if 4 \<le> length b then
        (if b ! 0 = CHR 0x00 then (if b ! 1 = CHR 0x00 then UTF32_BE else UTF16_BE)
         else if b ! 1 = CHR 0x00
              then (if b ! 2 = CHR 0x00 \<and> b ! 3 = CHR 0x00 then UTF32_LE else UTF16_LE)
         else UTF8)
      else if length b = 2 then
        (if b ! 0 = CHR 0x00 then UTF16_BE else if b ! 1 = CHR 0x00 then UTF16_LE else UTF8)
      else UTF8)"

text \<open>
  Well-formed UTF-8, read byte by byte: the state is the number of continuation bytes
  still due, with the range allowed for the next one.  With \<^verbatim>\<open>surrogatepass\<close> the
  three-byte encodings of the surrogates are accepted.
\<close>

datatype ustate = U0 | UCont nat nat nat

definition ulead :: "nat \<Rightarrow> ustate option" where
  "ulead b =
     (if b < 128 then Some U0
      else if b < 194 then None
      else if b < 224 then Some (UCont 1 128 191)
      else if b = 224 then Some (UCont 2 160 191)
      else if b < 240 then Some (UCont 2 128 191)
      else if b = 240 then Some (UCont 3 144 191)
      else if b < 244 then Some (UCont 3 128 191)
      else if b = 244 then Some (UCont 3 128 143)
      else None)"

fun ustep :: "ustate \<Rightarrow> char \<Rightarrow> ustate option" where
  "ustep U0 c = ulead (of_char c)"
| "ustep (UCont n lo hi) c =
     (if lo \<le> (of_char c :: nat) \<and> (of_char c :: nat) \<le> hi
      then Some (if n \<le> 1 then U0 else UCont (n - 1) 128 191)
      else None)"

fun uscan :: "ustate \<Rightarrow> bytes \<Rightarrow> ustate option" where
  "uscan st [] = Some st"
| "uscan st (c # cs) = (case ustep st c of None \<Rightarrow> None | Some st' \<Rightarrow> uscan st' cs)"

definition utf8_ok :: "bytes \<Rightarrow> bool" where
  "utf8_ok b = (uscan U0 b = Some U0)"

text \<open>The UTF-8 encoding of one code point.\<close>

definition utf8_encode :: "nat \<Rightarrow> bytes" where
  "utf8_encode cp =
     (if cp < 128 then [char_of cp]
      else if cp < 2048 then [char_of (192 + cp div 64), char_of (128 + cp mod 64)]
      else if cp < 65536
      then [char_of (224 + cp div 4096), char_of (128 + cp div 64 mod 64), char_of (128 + cp mod 64)]
      else [char_of (240 + cp div 262144), char_of (128 + cp div 4096 mod 64),
            char_of (128 + cp div 64 mod 64), char_of (128 + cp mod 64)])"

definition is_high :: "nat \<Rightarrow> bool" where
  "is_high v = (55296 \<le> v \<and> v \<le> 56319)"

definition is_low :: "nat \<Rightarrow> bool" where
  "is_low v = (56320 \<le> v \<and> v \<le> 57343)"

definition join_pair :: "nat \<Rightarrow> nat \<Rightarrow> nat" where
  "join_pair hi lo = 65536 + (hi - 55296) * 1024 + (lo - 56320)"

text \<open>
  UTF-16 and UTF-32: the code units in the given byte order (\<open>True\<close>: little endian);
  a truncated unit is an error, a surrogate pair is joined, a lone surrogate passes, a
  UTF-32 unit beyond the last code point is an error.
\<close>

fun utf16_units :: "bool \<Rightarrow> bytes \<Rightarrow> nat list option" where
  "utf16_units le [] = Some []"
| "utf16_units le [a] = None"
| "utf16_units le (a # b # r) =
     (case utf16_units le r of
        None \<Rightarrow> None
      | Some us \<Rightarrow>
          Some ((if le then of_char a + 256 * of_char b else 256 * of_char a + of_char b) # us))"

fun join_surrogates :: "nat list \<Rightarrow> nat list" where
  "join_surrogates (h # l # r) =
     (if is_high h \<and> is_low l then join_pair h l # join_surrogates r
      else h # join_surrogates (l # r))"
| "join_surrogates us = us"

definition utf16_decode :: "bool \<Rightarrow> bytes \<Rightarrow> string option" where
  "utf16_decode le b =
     (case utf16_units le b of
        None \<Rightarrow> None
      | Some us \<Rightarrow> Some (concat (map utf8_encode (join_surrogates us))))"

fun utf32_units :: "bool \<Rightarrow> bytes \<Rightarrow> nat list option" where
  "utf32_units le (a # b # c # d # r) =
     (case utf32_units le r of
        None \<Rightarrow> None
      | Some us \<Rightarrow>
          Some ((if le then of_char a + 256 * of_char b + 65536 * of_char c + 16777216 * of_char d
                 else 16777216 * of_char a + 65536 * of_char b + 256 * of_char c + of_char d) # us))"
| "utf32_units le [] = Some []"
| "utf32_units le r = None"

definition utf32_decode :: "bool \<Rightarrow> bytes \<Rightarrow> string option" where
  "utf32_decode le b =
     (case utf32_units le b of
        None \<Rightarrow> None
      | Some us \<Rightarrow>
          if list_all (\<lambda>cp. cp \<le> 1114111) us then Some (concat (map utf8_encode us)) else None)"

text \<open>\<^verbatim>\<open>s.decode(detect_encoding(s), 'surrogatepass')\<close>.\<close>

definition decode :: "bytes \<Rightarrow> string option" where
  "decode b =
     (case detect_encoding b of
        UTF8 \<Rightarrow> if utf8_ok b then Some b else None
      | UTF8_SIG \<Rightarrow> if utf8_ok (drop 3 b) then Some (drop 3 b) else None
      | UTF16 \<Rightarrow> utf16_decode (prefix [CHR 0xFF, CHR 0xFE] b) (drop 2 b)
      | UTF16_LE \<Rightarrow> utf16_decode True b
      | UTF16_BE \<Rightarrow> utf16_decode False b
      | UTF32 \<Rightarrow> utf32_decode (prefix [CHR 0xFF, CHR 0xFE] b) (drop 4 b)
      | UTF32_LE \<Rightarrow> utf32_decode True b
      | UTF32_BE \<Rightarrow> utf32_decode False b)"

subsection \<open>Scanning the text\<close>

text \<open>
  A lexer and a pushdown recogniser, both reading left to right.  The lexer reads the
  text in its UTF-8 encoding: every character with a meaning in JSON is one byte, and
  the bytes of the others occur inside strings only.
\<close>

datatype token =
    LBrace | RBrace | LBrack | RBrack | Colon | Comma
  | TStr string
  | TAtom string

text \<open>
  The lexer states: between tokens; in a number or literal; in a string; after a
  backslash; in the four digits of a \<^verbatim>\<open>\u\<close> escape (how many are read, and their
  value); and the same three string states once more for what follows an escaped high
  surrogate, which waits for a low one to be joined with.  A string state holds the
  characters read so far, the last one first.
\<close>

datatype lstate =
    Idle
  | InAtom string
  | InStr string
  | InEsc string
  | InHex string nat nat
  | HiSur string nat
  | HiEsc string nat
  | HiHex string nat nat nat

definition is_ws :: "char \<Rightarrow> bool" where
  "is_ws c = (c = CHR '' '' \<or> c = CHR 0x0A \<or> c = CHR 0x0D \<or> c = CHR 0x09)"

definition is_digit :: "char \<Rightarrow> bool" where
  "is_digit c = (48 \<le> (of_char c :: nat) \<and> (of_char c :: nat) \<le> 57)"

definition is_alpha :: "char \<Rightarrow> bool" where
  "is_alpha c = ((65 \<le> (of_char c :: nat) \<and> (of_char c :: nat) \<le> 90) \<or>
                 (97 \<le> (of_char c :: nat) \<and> (of_char c :: nat) \<le> 122))"

definition is_atom_char :: "char \<Rightarrow> bool" where
  "is_atom_char c = (is_digit c \<or> is_alpha c \<or> c = CHR ''+'' \<or> c = CHR ''-'' \<or> c = CHR ''.'')"

definition punct :: "char \<Rightarrow> token option" where
  "punct c =
     (if c = CHR ''{'' then Some LBrace else if c = CHR ''}'' then Some RBrace
      else if c = CHR ''['' then Some LBrack else if c = CHR '']'' then Some RBrack
      else if c = CHR '':'' then Some Colon else if c = CHR '','' then Some Comma
      else None)"

definition hexval :: "char \<Rightarrow> nat option" where
  "hexval c =
     (if 48 \<le> (of_char c :: nat) \<and> (of_char c :: nat) \<le> 57 then Some (of_char c - 48)
      else if 97 \<le> (of_char c :: nat) \<and> (of_char c :: nat) \<le> 102 then Some (of_char c - 87)
      else if 65 \<le> (of_char c :: nat) \<and> (of_char c :: nat) \<le> 70 then Some (of_char c - 55)
      else None)"

text \<open>The character a backslash escape other than \<^verbatim>\<open>\u\<close> stands for.\<close>

definition unescape :: "char \<Rightarrow> char option" where
  "unescape c =
     (if c = CHR 0x22 \<or> c = CHR 0x5C \<or> c = CHR ''/'' then Some c
      else if c = CHR ''b'' then Some (CHR 0x08)
      else if c = CHR ''f'' then Some (CHR 0x0C)
      else if c = CHR ''n'' then Some (CHR 0x0A)
      else if c = CHR ''r'' then Some (CHR 0x0D)
      else if c = CHR ''t'' then Some (CHR 0x09)
      else None)"

definition lstep_idle :: "char \<Rightarrow> (lstate \<times> token list) option" where
  "lstep_idle c =
     (if is_ws c then Some (Idle, [])
      else case punct c of
        Some t \<Rightarrow> Some (Idle, [t])
      | None \<Rightarrow>
          if c = CHR 0x22 then Some (InStr [], [])
          else if is_atom_char c then Some (InAtom [c], [])
          else None)"

text \<open>
  Inside a string: the closing quote, a backslash, or a character of the string; a
  control character is an error.
\<close>

definition lstep_str :: "string \<Rightarrow> char \<Rightarrow> (lstate \<times> token list) option" where
  "lstep_str acc c =
     (if c = CHR 0x22 then Some (Idle, [TStr (rev acc)])
      else if c = CHR 0x5C then Some (InEsc acc, [])
      else if (of_char c :: nat) < 32 then None
      else Some (InStr (c # acc), []))"

definition lstep_esc :: "string \<Rightarrow> char \<Rightarrow> (lstate \<times> token list) option" where
  "lstep_esc acc c =
     (if c = CHR ''u'' then Some (InHex acc 0 0, [])
      else case unescape c of
        None \<Rightarrow> None
      | Some d \<Rightarrow> Some (InStr (d # acc), []))"

text \<open>
  A \<^verbatim>\<open>\u\<close> escape is complete: a high surrogate waits for its partner, any other code
  point joins the string.
\<close>

definition after_unit :: "string \<Rightarrow> nat \<Rightarrow> lstate" where
  "after_unit acc v = (if is_high v then HiSur acc v else InStr (rev (utf8_encode v) @ acc))"

text \<open>
  One character: the next lexer state and the tokens completed by it.  An atom (number
  or literal) ends at the first character that cannot continue it.  A high surrogate
  followed by an escaped low surrogate gives the code point of the pair; followed by
  anything else it stays alone.
\<close>

fun lstep :: "lstate \<Rightarrow> char \<Rightarrow> (lstate \<times> token list) option" where
  "lstep Idle c = lstep_idle c"
| "lstep (InAtom acc) c =
     (if is_atom_char c then Some (InAtom (c # acc), [])
      else case lstep_idle c of
        None \<Rightarrow> None
      | Some (st, out) \<Rightarrow> Some (st, TAtom (rev acc) # out))"
| "lstep (InStr acc) c = lstep_str acc c"
| "lstep (InEsc acc) c = lstep_esc acc c"
| "lstep (InHex acc n v) c =
     (case hexval c of
        None \<Rightarrow> None
      | Some d \<Rightarrow>
          if n < 3 then Some (InHex acc (n + 1) (16 * v + d), [])
          else Some (after_unit acc (16 * v + d), []))"
| "lstep (HiSur acc hi) c =
     (if c = CHR 0x5C then Some (HiEsc acc hi, [])
      else lstep_str (rev (utf8_encode hi) @ acc) c)"
| "lstep (HiEsc acc hi) c =
     (if c = CHR ''u'' then Some (HiHex acc hi 0 0, [])
      else lstep_esc (rev (utf8_encode hi) @ acc) c)"
| "lstep (HiHex acc hi n v) c =
     (case hexval c of
        None \<Rightarrow> None
      | Some d \<Rightarrow>
          if n < 3 then Some (HiHex acc hi (n + 1) (16 * v + d), [])
          else if is_low (16 * v + d)
          then Some (InStr (rev (utf8_encode (join_pair hi (16 * v + d))) @ acc), [])
          else Some (after_unit (rev (utf8_encode hi) @ acc) (16 * v + d), []))"

fun lexs :: "lstate \<Rightarrow> string \<Rightarrow> (lstate \<times> token list) option" where
  "lexs st [] = Some (st, [])"
| "lexs st (c # cs) =
     (case lstep st c of
        None \<Rightarrow> None
      | Some (st', out) \<Rightarrow>
          (case lexs st' cs of
             None \<Rightarrow> None
           | Some (st'', outs) \<Rightarrow> Some (st'', out @ outs)))"

definition tokenize :: "string \<Rightarrow> token list option" where
  "tokenize s =
     (case lexs Idle s of
        None \<Rightarrow> None
      | Some (st, ts) \<Rightarrow>
          (case st of
             Idle \<Rightarrow> Some ts
           | InAtom acc \<Rightarrow> Some (ts @ [TAtom (rev acc)])
           | _ \<Rightarrow> None))"

text \<open>The number grammar of JSON, and the literals Python accepts.\<close>

definition valid_exp :: "string \<Rightarrow> bool" where
  "valid_exp r =
     (case r of
        [] \<Rightarrow> True
      | c # r' \<Rightarrow>
          (c = CHR ''e'' \<or> c = CHR ''E'') \<and>
          (let d = (case r' of [] \<Rightarrow> [] | s # t \<Rightarrow> if s = CHR ''+'' \<or> s = CHR ''-'' then t else r')
           in d \<noteq> [] \<and> list_all is_digit d))"

definition valid_frac_exp :: "string \<Rightarrow> bool" where
  "valid_frac_exp r =
     (case r of
        [] \<Rightarrow> True
      | c # r' \<Rightarrow>
          if c = CHR ''.'' then takeWhile is_digit r' \<noteq> [] \<and> valid_exp (dropWhile is_digit r')
          else valid_exp r)"

definition is_number :: "string \<Rightarrow> bool" where
  "is_number s =
     (let u = (case s of [] \<Rightarrow> [] | c # t \<Rightarrow> if c = CHR ''-'' then t else s);
          ip = takeWhile is_digit u
      in if ip = [] then False
         else if ip = ''0'' \<or> 49 \<le> (of_char (hd ip) :: nat)
         then valid_frac_exp (dropWhile is_digit u)
         else False)"

definition valid_atom :: "string \<Rightarrow> bool" where
  "valid_atom a =
     (a \<in> set [''true'', ''false'', ''null'', ''NaN'', ''Infinity'', ''-Infinity''] \<or> is_number a)"

text \<open>
  \<^verbatim>\<open>dict[key] = value\<close> while an object is built: a key met again keeps its place and
  takes the new value.
\<close>

fun dict_setitem :: "(string \<times> json) list \<Rightarrow> string \<Rightarrow> json \<Rightarrow> (string \<times> json) list" where
  "dict_setitem [] k v = [(k, v)]"
| "dict_setitem ((k', v') # kvs) k v =
     (if k' = k then (k', v) # kvs else (k', v') # dict_setitem kvs k v)"

datatype pstate =
    PValue
  | PValueOrEnd
  | PKeyOrEnd
  | PKey
  | PColon
  | PAfter
  | PDone json

text \<open>
  The open containers: an array with its elements so far, the last one first; an object
  with its dictionary so far; an object whose next value belongs to a key.
\<close>

datatype frame =
    InArr "json list"
  | InObj "(string \<times> json) list"
  | InPair "(string \<times> json) list" string

type_synonym config = "pstate \<times> frame list"

text \<open>A value is complete: it is the result, or goes into the enclosing container.\<close>

fun deliver :: "json \<Rightarrow> frame list \<Rightarrow> config option" where
  "deliver v [] = Some (PDone v, [])"
| "deliver v (InArr es # K) = Some (PAfter, InArr (v # es) # K)"
| "deliver v (InPair kvs k # K) = Some (PAfter, InObj (dict_setitem kvs k v) # K)"
| "deliver v (InObj kvs # K) = None"

fun start_value :: "token \<Rightarrow> frame list \<Rightarrow> config option" where
  "start_value (TStr s) K = deliver (JString s) K"
| "start_value (TAtom a) K = (if valid_atom a then deliver (JAtom a) K else None)"
| "start_value LBrace K = Some (PKeyOrEnd, InObj [] # K)"
| "start_value LBrack K = Some (PValueOrEnd, InArr [] # K)"
| "start_value _ K = None"

fun pstep :: "config \<Rightarrow> token \<Rightarrow> config option" where
  "pstep (PValue, K) t = start_value t K"
| "pstep (PValueOrEnd, K) t =
     (case (t, K) of
        (RBrack, InArr [] # K') \<Rightarrow> deliver (JArray []) K'
      | _ \<Rightarrow> start_value t K)"
| "pstep (PKeyOrEnd, K) t =
     (case (t, K) of
        (RBrace, InObj [] # K') \<Rightarrow> deliver (JObject []) K'
      | (TStr k, InObj kvs # K') \<Rightarrow> Some (PColon, InPair kvs k # K')
      | _ \<Rightarrow> None)"
| "pstep (PKey, K) t =
     (case (t, K) of
        (TStr k, InObj kvs # K') \<Rightarrow> Some (PColon, InPair kvs k # K')
      | _ \<Rightarrow> None)"
| "pstep (PColon, K) t = (if t = Colon then Some (PValue, K) else None)"
| "pstep (PAfter, K) t =
     (case (t, K) of
        (Comma, InArr es # K') \<Rightarrow> Some (PValue, K)
      | (Comma, InObj kvs # K') \<Rightarrow> Some (PKey, K)
      | (RBrack, InArr es # K') \<Rightarrow> deliver (JArray (rev es)) K'
      | (RBrace, InObj kvs # K') \<Rightarrow> deliver (JObject kvs) K'
      | _ \<Rightarrow> None)"
| "pstep (PDone v, K) t = None"

fun run :: "config \<Rightarrow> token list \<Rightarrow> config option" where
  "run c [] = Some c"
| "run c (t # ts) = (case pstep c t of None \<Rightarrow> None | Some c' \<Rightarrow> run c' ts)"

text \<open>The scan of a decoded text: one value, with white space around it.\<close>

definition scan_text :: "string \<Rightarrow> json option" where
  "scan_text s =
     (case tokenize s of
        None \<Rightarrow> None
      | Some ts \<Rightarrow>
          (case run (PValue, []) ts of
             Some (PDone v, K) \<Rightarrow> Some v
           | _ \<Rightarrow> None))"

definition loads :: "bytes \<Rightarrow> error + json" where
  "loads s =
     (case decode s of
        None \<Rightarrow> Inl UnicodeDecodeError
      | Some text \<Rightarrow>
          (case scan_text text of
             None \<Rightarrow> Inl JSONDecodeError
           | Some v \<Rightarrow> Inr v))"

text \<open>
  \<^verbatim>\<open>bytes.replace(old, new)\<close>: the occurrences of \<open>old\<close> are found from the left and do
  not overlap; an empty \<open>old\<close> matches before every byte and at the end.
\<close>

function replace :: "bytes \<Rightarrow> bytes \<Rightarrow> bytes \<Rightarrow> bytes" where
  "replace old new [] = (if old = [] then new else [])"
| "replace old new (c # cs) =
     (if old = [] then new @ c # replace old new cs
      else if prefix old (c # cs) then new @ replace old new (drop (length old) (c # cs))
      else c # replace old new cs)"
  by pat_completeness auto
termination
  by (relation "measure (\<lambda>(old, new, s). length s)") (auto simp: neq_Nil_conv)


section \<open>Primitive effects\<close>

text \<open>
  Every operation takes the world and returns its result, or the exception it raises,
  with the world it leaves.  \<open>andthen\<close> runs the next statement unless an exception
  is under way; \<open>returning\<close> makes the outcome of a pure expression a step of an
  operation, and \<open>sbind\<close> chains two pure steps.
\<close>

type_synonym 'a result = "(error + 'a) \<times> world"

definition andthen :: "'a result \<Rightarrow> ('a \<Rightarrow> world \<Rightarrow> 'b result) \<Rightarrow> 'b result" where
  "andthen r f = (case r of (Inl e, w) \<Rightarrow> (Inl e, w) | (Inr x, w) \<Rightarrow> f x w)"

definition returning :: "error + 'a \<Rightarrow> world \<Rightarrow> 'a result" where
  "returning r w = (r, w)"

definition sbind :: "error + 'a \<Rightarrow> ('a \<Rightarrow> error + 'b) \<Rightarrow> error + 'b" where
  "sbind r f = (case r of Inl e \<Rightarrow> Inl e | Inr x \<Rightarrow> f x)"

definition is_dir :: "world \<Rightarrow> path \<Rightarrow> bool" where
  "is_dir w p = (p = [] \<or> p \<in> dirs w)"

definition mkdir_parent :: "path \<Rightarrow> world \<Rightarrow> unit result" where
  "mkdir_parent fp w =
     (case mkdir_parents (parent fp) w of Inl e \<Rightarrow> (Inl e, w) | Inr w' \<Rightarrow> (Inr (), w'))"

text \<open>\<^verbatim>\<open>requests.get(url).content\<close>; no status check is made on the response.\<close>

definition requests_get :: "env \<Rightarrow> string \<Rightarrow> world \<Rightarrow> bytes result" where
  "requests_get E url w =
     (case http_get E url of
        None \<Rightarrow> (Inl (RequestException url), emit (EvHttpGet url) w)
      | Some b \<Rightarrow> (Inr b, emit (EvHttpGet url) w))"

text \<open>\<^verbatim>\<open>open(path, 'wb')\<close> and write: creates or overwrites a regular file.\<close>

definition write_bytes :: "path \<Rightarrow> bytes \<Rightarrow> world \<Rightarrow> unit result" where
  "write_bytes p b w =
     (if is_dir w p then (Inl (OSError p), w)
      else if is_dir w (parent p)
      then (Inr (), emit (EvWrite p) (w\<lparr>files := (files w)(p \<mapsto> Blob b)\<rparr>))
      else (Inl (OSError p), w))"

text \<open>
  \<^verbatim>\<open>open(path, 'rb')\<close> and read.  The encoded bytes of a media file are not
  modelled: the code reads back only the scratch file it has just written.
\<close>

definition read_bytes :: "path \<Rightarrow> world \<Rightarrow> bytes result" where
  "read_bytes p w = (case files w p of Some (Blob b) \<Rightarrow> (Inr b, w) | _ \<Rightarrow> (Inl (OSError p), w))"

text \<open>
  \<^verbatim>\<open>file_metadata[key]\<close> on the parsed metadata: a missing key raises, and so does
  indexing a value that is not a dictionary by a string.
\<close>

definition getitem :: "json \<Rightarrow> string \<Rightarrow> error + json" where
  "getitem md k =
     (case md of
        JObject kvs \<Rightarrow> (case map_of kvs k of None \<Rightarrow> Inl (KeyError k) | Some v \<Rightarrow> Inr v)
      | _ \<Rightarrow> Inl TypeError)"

subsection \<open>The tag library\<close>

text \<open>
  Opening a file with the tag library gives a handle: a private copy of the tag
  container found on disk (\<open>None\<close> when an MP4 or MP3 file has none).  Item assignment
  on the file object changes the handle only, creating the container when absent;
  saving writes the handle's container over the one on disk.
\<close>

definition open_mp4 :: "path \<Rightarrow> world \<Rightarrow> (tags option) result" where
  "open_mp4 p w =
     (case files w p of
        Some (MP4File tg) \<Rightarrow> (Inr tg, emit (EvOpen MP4 p) w)
      | _ \<Rightarrow> (Inl (MutagenError p), emit (EvOpen MP4 p) w))"

definition open_mp3 :: "path \<Rightarrow> world \<Rightarrow> (tags option) result" where
  "open_mp3 p w =
     (case files w p of
        Some (MP3File tg) \<Rightarrow> (Inr tg, emit (EvOpen MP3 p) w)
      | _ \<Rightarrow> (Inl (MutagenError p), emit (EvOpen MP3 p) w))"

definition save_mp4 :: "path \<Rightarrow> tags option \<Rightarrow> world \<Rightarrow> unit result" where
  "save_mp4 p h w =
     (case h of
        None \<Rightarrow> (Inr (), w)
      | Some t \<Rightarrow>
          (case files w p of
             Some (MP4File tg) \<Rightarrow>
               (Inr (), emit (EvSave MP4 p) (w\<lparr>files := (files w)(p \<mapsto> MP4File (Some t))\<rparr>))
           | _ \<Rightarrow> (Inl (MutagenError p), emit (EvSave MP4 p) w)))"

definition save_mp3 :: "path \<Rightarrow> tags option \<Rightarrow> world \<Rightarrow> unit result" where
  "save_mp3 p h w =
     (case h of
        None \<Rightarrow> (Inr (), w)
      | Some t \<Rightarrow>
          (case files w p of
             Some (MP3File tg) \<Rightarrow>
               (Inr (), emit (EvSave MP3 p) (w\<lparr>files := (files w)(p \<mapsto> MP3File (Some t))\<rparr>))
           | _ \<Rightarrow> (Inl (MutagenError p), emit (EvSave MP3 p) w)))"

definition handle_set :: "tags option \<Rightarrow> string \<Rightarrow> tagval \<Rightarrow> tags option" where
  "handle_set h k v = Some ((case h of None \<Rightarrow> Map.empty | Some t \<Rightarrow> t)(k \<mapsto> v))"

text \<open>
  Text cannot be written when it holds a lone surrogate: in the encoding of the text,
  the byte \<open>0xED\<close> followed by a byte from \<open>0xA0\<close> on.
\<close>

fun has_surrogate :: "string \<Rightarrow> bool" where
  "has_surrogate (a # b # r) =
     (if a = CHR 0xED \<and> 160 \<le> (of_char b :: nat) then True else has_surrogate (b # r))"
| "has_surrogate r = False"

text \<open>
  Assignment to a text atom of an MP4 container renders the value at once: a string is
  one value; anything else is iterated, and each item must be a string (iterating a
  dictionary gives its keys; a number or literal cannot be iterated).
\<close>

fun render_text :: "json list \<Rightarrow> error + string list" where
  "render_text [] = Inr []"
| "render_text (v # vs) =
     (case v of
        JString s \<Rightarrow>
          if has_surrogate s then Inl UnicodeEncodeError
          else (case render_text vs of Inl e \<Rightarrow> Inl e | Inr ss \<Rightarrow> Inr (s # ss))
      | _ \<Rightarrow> Inl TypeError)"

definition mp4_text :: "json \<Rightarrow> error + string list" where
  "mp4_text v =
     (case v of
        JString s \<Rightarrow> render_text [JString s]
      | JArray vs \<Rightarrow> render_text vs
      | JObject kvs \<Rightarrow> render_text (map (\<lambda>kv. JString (fst kv)) kvs)
      | JAtom a \<Rightarrow> Inl TypeError)"

definition mp4_setitem :: "tags option \<Rightarrow> string \<Rightarrow> json \<Rightarrow> error + tags option" where
  "mp4_setitem h k v =
     (case mp4_text v of Inl e \<Rightarrow> Inl e | Inr ss \<Rightarrow> Inr (handle_set h k (TagText ss)))"

text \<open>
  A cover is written with the image format it carries as an attribute; a plain byte
  string carries none, and the library then writes \<^verbatim>\<open>FORMAT_JPEG\<close>.
\<close>

definition render_covers :: "bytes list \<Rightarrow> tagval" where
  "render_covers bs = TagCovers (map (\<lambda>b. (FORMAT_JPEG, b)) bs)"

text \<open>
  \<^verbatim>\<open>tags.add(frame)\<close> of an ID3 container, whose frames are kept under the frame
  identifier and description.
\<close>

definition id3_add :: "tags \<Rightarrow> nat \<Rightarrow> string \<Rightarrow> nat \<Rightarrow> string \<Rightarrow> bytes \<Rightarrow> tags" where
  "id3_add t encoding mime type desc d = t(''APIC:'' @ desc \<mapsto> TagAPIC encoding mime type desc d)"

text \<open>\<^verbatim>\<open>str.lower\<close> on ASCII text.\<close>

definition lower_char :: "char \<Rightarrow> char" where
  "lower_char c =
     (if 65 \<le> (of_char c :: nat) \<and> (of_char c :: nat) \<le> 90 then char_of ((of_char c :: nat) + 32) else c)"

definition lower :: "string \<Rightarrow> string" where
  "lower s = map lower_char s"

text \<open>
  The handle of an Opus file is its comment list, with whatever values have been
  assigned.  Assignment removes the comments of the key, compared without regard to
  case, and appends the new value, or each item of a list.  Saving validates first:
  every value must be a string, and must be encodable.
\<close>

definition open_opus :: "path \<Rightarrow> world \<Rightarrow> ((string \<times> json) list) result" where
  "open_opus p w =
     (case files w p of
        Some (OpusFile cs) \<Rightarrow> (Inr (map (\<lambda>kv. (fst kv, JString (snd kv))) cs), emit (EvOpen OggOpus p) w)
      | _ \<Rightarrow> (Inl (MutagenError p), emit (EvOpen OggOpus p) w))"

definition vorbis_setitem :: "(string \<times> json) list \<Rightarrow> string \<Rightarrow> json \<Rightarrow> (string \<times> json) list" where
  "vorbis_setitem h key v =
     filter (\<lambda>kv. lower (fst kv) \<noteq> lower key) h @
     map (Pair key) (case v of JArray vs \<Rightarrow> vs | _ \<Rightarrow> [v])"

fun comment_text :: "json \<Rightarrow> string option" where
  "comment_text (JString s) = Some s"
| "comment_text v = None"

definition vorbis_write :: "(string \<times> json) list \<Rightarrow> error + vcomment" where
  "vorbis_write h =
     (if list_ex (\<lambda>kv. comment_text (snd kv) = None) h then Inl ValueError
      else if list_ex (\<lambda>kv. has_surrogate (the (comment_text (snd kv)))) h then Inl UnicodeEncodeError
      else Inr (map (\<lambda>kv. (fst kv, the (comment_text (snd kv)))) h))"

definition save_opus :: "path \<Rightarrow> (string \<times> json) list \<Rightarrow> world \<Rightarrow> unit result" where
  "save_opus p h w =
     (case files w p of
        Some (OpusFile old) \<Rightarrow>
          (case vorbis_write h of
             Inl e \<Rightarrow> (Inl e, emit (EvSave OggOpus p) w)
           | Inr cs \<Rightarrow> (Inr (), emit (EvSave OggOpus p) (w\<lparr>files := (files w)(p \<mapsto> OpusFile cs)\<rparr>)))
      | _ \<Rightarrow> (Inl (MutagenError p), emit (EvSave OggOpus p) w))"

section \<open>The operations of \<^verbatim>\<open>youtube_music_metadata/utilities.py\<close>\<close>

definition default_template :: string where
  "default_template = ''%(title)s.%(ext)s''"

definition output_path :: "env \<Rightarrow> path option \<Rightarrow> path" where
  "output_path E file_path =
     (case file_path of None \<Rightarrow> joinpath (cwd E) default_template | Some p \<Rightarrow> p)"

definition audio_command :: "env \<Rightarrow> path \<Rightarrow> string \<Rightarrow> string list" where
  "audio_command E fp url =
     [as_posix (yt_dlp_path E), ''--embed-thumbnail'', ''--add-metadata'', ''--extract-audio'',
      ''-o'', as_posix fp, url]"

definition metadata_command :: "env \<Rightarrow> string \<Rightarrow> string list" where
  "metadata_command E url = [as_posix (yt_dlp_path E), ''--dump-json'', url]"

definition thumbnail_command :: "env \<Rightarrow> path \<Rightarrow> string \<Rightarrow> string list" where
  "thumbnail_command E fp url =
     [as_posix (yt_dlp_path E), ''--write-thumbnail'', ''--skip-download'', ''-o'', as_posix fp, url]"

definition download_failed :: "string \<Rightarrow> int \<Rightarrow> string" where
  "download_failed url returncode =
     ''Subprocess call failed for url '' @ url @
     '' when attempting to download video with metadata with code: '' @ str_int returncode"

definition metadata_failed :: "string \<Rightarrow> int \<Rightarrow> string" where
  "metadata_failed url returncode =
     ''Subprocess call failed for url `'' @ url @
     ''` when attempting to write metadata with code: '' @ str_int returncode"

definition load_failed :: "string \<Rightarrow> string" where
  "load_failed url =
     ''Failed to load json from stdout of subprocess call for url `'' @ url @ ''`''"

definition download_audio_with_metadata :: "env \<Rightarrow> string \<Rightarrow> path option \<Rightarrow> world \<Rightarrow> unit result" where
  "download_audio_with_metadata E url file_path w =
     (let fp = output_path E file_path in
      andthen (mkdir_parent fp w) (\<lambda>_ w1.
        let command = audio_command E fp url;
            ((returncode, out), w2) = subprocess_run E command (emit (EvPprint command) w1)
        in if \<not> returncode = 0 then (Inl (Exception (download_failed url returncode)), w2)
           else (Inr (), w2)))"

definition repair :: "bytes \<Rightarrow> bytes" where
  "repair out =
     ''['' @ replace [CHR ''}'', CHR 0x0A] ''}''
              (replace [CHR ''}'', CHR 0x0A, CHR ''{''] ''},{'' out) @ '']''"

text \<open>
  The first parse has three outcomes: the value; a decoding error of the JSON text,
  handled by parsing the repaired output, whose own failure leaves the handler as it
  is; any other exception, replaced by the one of the last handler.
\<close>

definition fetch_metadata :: "env \<Rightarrow> string \<Rightarrow> world \<Rightarrow> json result" where
  "fetch_metadata E url w =
     (let command = metadata_command E url;
          ((returncode, out), w1) = subprocess_run E command w
      in if returncode = 0
         then (case loads out of
                 Inr metadata \<Rightarrow> (Inr metadata, w1)
               | Inl e \<Rightarrow>
                   if e = JSONDecodeError
                   then (case loads (repair out) of
                           Inr metadata \<Rightarrow> (Inr metadata, w1)
                         | Inl e' \<Rightarrow> (Inl e', w1))
                   else (Inl (Exception (load_failed url)), w1))
         else (Inl (Exception (metadata_failed url returncode)), w1))"

definition download_thumbnail :: "env \<Rightarrow> string \<Rightarrow> path option \<Rightarrow> world \<Rightarrow> unit result" where
  "download_thumbnail E url file_path w =
     (let fp = output_path E file_path in
      andthen (mkdir_parent fp w) (\<lambda>_ w1.
        let ((returncode, out), w2) = subprocess_run E (thumbnail_command E fp url) w1
        in if \<not> returncode = 0 then (Inl (Exception (download_failed url returncode)), w2)
           else (Inr (), w2)))"

definition cover_is_jpeg :: "string \<Rightarrow> bool" where
  "cover_is_jpeg cover = (endswith cover ''.jpg'' \<or> endswith cover ''.jpeg'')"

text \<open>
  \<^verbatim>\<open>MP4Cover(data, imageformat=...)\<close> is a byte string carrying a format attribute,
  here the text the code passes; \<^verbatim>\<open>bytes(albumart)\<close> is the plain byte string.
\<close>

record mp4cover =
  cover_data :: bytes
  imageformat :: string

definition bytes_of_cover :: "mp4cover \<Rightarrow> bytes" where
  "bytes_of_cover c = cover_data c"

text \<open>
  The scratch file of the cover image, \<^verbatim>\<open>Path.cwd() / "cover.jpg"\<close>; it is also the
  default of the file path argument.
\<close>

definition cover_path :: "env \<Rightarrow> path" where
  "cover_path E = joinpath (cwd E) ''cover.jpg''"

definition set_cover :: "env \<Rightarrow> string \<Rightarrow> path option \<Rightarrow> world \<Rightarrow> unit result" where
  "set_cover E cover file_path w =
     (let fp = (case file_path of None \<Rightarrow> cover_path E | Some p \<Rightarrow> p) in
      andthen (mkdir_parent fp w) (\<lambda>_ w.
      andthen (requests_get E cover w) (\<lambda>content w.
      andthen (write_bytes (cover_path E) content w) (\<lambda>_ w.
        if endswith (as_posix fp) ''.mp3'' then
          andthen (open_mp3 fp w) (\<lambda>MP3file w.
          let mime = (if cover_is_jpeg cover then ''image/jpg'' else ''image/png'') in
          andthen (read_bytes (cover_path E) w) (\<lambda>albumart w.
            case MP3file of
              None \<Rightarrow> (Inl AttributeError, w)
            | Some t \<Rightarrow> save_mp3 fp (Some (id3_add t 3 mime 3 ''Cover'' albumart)) w))
        else
          andthen (open_mp4 fp w) (\<lambda>MP4file w.
          let cover_format = (if cover_is_jpeg cover then ''MP4Cover.FORMAT_JPEG''
                              else ''MP4Cover.FORMAT_PNG'') in
          andthen (read_bytes (cover_path E) w) (\<lambda>data w.
            let albumart = \<lparr>cover_data = data, imageformat = cover_format\<rparr> in
            case MP4file of
              None \<Rightarrow> (Inl TypeError, w)
            | Some t \<Rightarrow> save_mp4 fp (Some (t(''covr'' \<mapsto> render_covers [bytes_of_cover albumart]))) w))))))"

text \<open>
  The keys of the five text atoms; \<^verbatim>\<open>\xa9\<close> is the copyright sign, two bytes in the
  encoding of the text.
\<close>

definition key_nam :: string where "key_nam = CHR 0xC2 # CHR 0xA9 # ''nam''"
definition key_ART :: string where "key_ART = CHR 0xC2 # CHR 0xA9 # ''ART''"
definition key_day :: string where "key_day = CHR 0xC2 # CHR 0xA9 # ''day''"
definition key_cmt :: string where "key_cmt = CHR 0xC2 # CHR 0xA9 # ''cmt''"

text \<open>
  Each assignment reads the field of the metadata first and then sets the item.  A
  thumbnail value that is not text reaches the HTTP library inside \<open>set_cover\<close>,
  after the directory is made, and is rejected there.
\<close>

definition set_m4a_metadata :: "env \<Rightarrow> path \<Rightarrow> json \<Rightarrow> world \<Rightarrow> unit result" where
  "set_m4a_metadata E file_path file_metadata w =
     andthen (open_mp4 file_path w) (\<lambda>tags w.
     andthen (returning (sbind (getitem file_metadata ''title'') (mp4_setitem tags key_nam)) w) (\<lambda>tags w.
     andthen (returning (sbind (getitem file_metadata ''channel'') (mp4_setitem tags key_ART)) w) (\<lambda>tags w.
     andthen (returning (sbind (getitem file_metadata ''upload_date'') (mp4_setitem tags key_day)) w) (\<lambda>tags w.
     andthen (returning (sbind (getitem file_metadata ''webpage_url'') (mp4_setitem tags key_cmt)) w) (\<lambda>tags w.
     andthen (returning (sbind (getitem file_metadata ''description'') (mp4_setitem tags ''desc'')) w) (\<lambda>tags w.
     andthen (returning (getitem file_metadata ''thumbnail'') w) (\<lambda>v w.
     andthen (case v of
                JString cover \<Rightarrow> set_cover E cover (Some file_path) w
              | _ \<Rightarrow> andthen (mkdir_parent file_path w) (\<lambda>_ w. (Inl (RequestException []), w))) (\<lambda>_ w.
     save_mp4 file_path tags w))))))))"

definition set_opus_metadata :: "env \<Rightarrow> path \<Rightarrow> json \<Rightarrow> world \<Rightarrow> unit result" where
  "set_opus_metadata E file_path file_metadata w =
     andthen (open_opus file_path w) (\<lambda>tags w.
     andthen (returning (getitem file_metadata ''title'') w) (\<lambda>v w.
     let tags = vorbis_setitem tags ''TITLE'' v in
     andthen (returning (getitem file_metadata ''channel'') w) (\<lambda>v w.
     let tags = vorbis_setitem tags ''ARTIST'' v in
     andthen (returning (getitem file_metadata ''upload_date'') w) (\<lambda>v w.
     let tags = vorbis_setitem tags ''DATE'' v in
     andthen (returning (getitem file_metadata ''webpage_url'') w) (\<lambda>v w.
     let tags = vorbis_setitem tags ''COMMENT'' v in
     andthen (returning (getitem file_metadata ''description'') w) (\<lambda>v w.
     let tags = vorbis_setitem tags ''DESCRIPTION'' v in
     save_opus file_path tags w))))))"

section \<open>The command-line script \<^verbatim>\<open>scripts/download_youtube_audio.py\<close>\<close>

text \<open>\<^verbatim>\<open>Path.suffix\<close>.\<close>

definition path_suffix :: "path \<Rightarrow> string" where
  "path_suffix p =
     (let name = (if p = [] then [] else last p);
          after = takeWhile (\<lambda>c. c \<noteq> CHR ''.'') (rev name);
          i = length name - length after - 1
      in if length after < length name \<and> 0 < i \<and> after \<noteq> [] then drop i name else [])"

record args =
  arg_url :: string
  arg_output_file_path :: "path option"
  arg_metadata_only :: bool
  arg_download_thumbnail :: bool
  arg_set_m4a_metadata :: "path option"

text \<open>
  \<^verbatim>\<open>main\<close> after the arguments are parsed and the logging configuration is loaded.
\<close>

definition main :: "env \<Rightarrow> args \<Rightarrow> world \<Rightarrow> unit result" where
  "main E a w =
     (if arg_metadata_only a then
        andthen (fetch_metadata E (arg_url a) w) (\<lambda>metadata w. (Inr (), emit (EvPrintJson metadata) w))
      else if arg_download_thumbnail a then download_thumbnail E (arg_url a) None w
      else case arg_set_m4a_metadata a of
        Some file_path \<Rightarrow>
          andthen (fetch_metadata E (arg_url a) w) (\<lambda>metadata w.
            let file_extension = lower (path_suffix file_path) in
            if file_extension = ''.m4a'' then set_m4a_metadata E file_path metadata w
            else if file_extension = ''.opus'' then set_opus_metadata E file_path metadata w
            else (Inr (), emit (EvPrint (''Unsupported file format: '' @ file_extension)) w))
      | None \<Rightarrow> download_audio_with_metadata E (arg_url a) (arg_output_file_path a) w)"

section \<open>The older script \<^verbatim>\<open>__main__.py\<close>\<close>

text \<open>
  Its functions carry the same names as those of the utilities module; here they are
  prefixed with \<open>script_\<close>.  They log a failure of the downloader and return.
\<close>

definition script_output_path :: "env \<Rightarrow> path" where
  "script_output_path E = joinpath (joinpath (cwd E) ''data'') default_template"

definition script_audio_command :: "env \<Rightarrow> string \<Rightarrow> string list" where
  "script_audio_command E url =
     [as_posix (youtube_dl E), ''--embed-thumbnail'', ''--add-metadata'', ''--extract-audio'',
      ''-o'', as_posix (script_output_path E), url]"

definition script_metadata_command :: "env \<Rightarrow> string \<Rightarrow> string list" where
  "script_metadata_command E url = [as_posix (youtube_dl E), ''-j'', url]"

definition script_thumbnail_command :: "env \<Rightarrow> string \<Rightarrow> string list" where
  "script_thumbnail_command E url =
     [as_posix (youtube_dl E), ''--write-thumbnail'', ''--skip-download'', ''-o'',
      as_posix (script_output_path E), url]"

definition script_failed :: "string \<Rightarrow> string \<Rightarrow> int \<Rightarrow> string" where
  "script_failed url what returncode =
     ''Subprocess call failed for url `'' @ url @ ''` when attempting to '' @ what @
     '' with code: '' @ str_int returncode"

definition script_download_audio_with_metadata :: "env \<Rightarrow> string \<Rightarrow> world \<Rightarrow> unit result" where
  "script_download_audio_with_metadata E url w =
     (let ((returncode, out), w1) = subprocess_run E (script_audio_command E url) w
      in if \<not> returncode = 0
         then (Inr (), emit (EvLogError (script_failed url ''download video with metadata'' returncode)) w1)
         else (Inr (), w1))"

text \<open>
  Here the last handler logs and the function returns the dictionary it started with,
  which is empty.
\<close>

definition script_fetch_metadata :: "env \<Rightarrow> string \<Rightarrow> world \<Rightarrow> json result" where
  "script_fetch_metadata E url w =
     (let ((returncode, out), w1) = subprocess_run E (script_metadata_command E url) w
      in if returncode = 0
         then (case loads out of
                 Inr metadata \<Rightarrow> (Inr metadata, w1)
               | Inl e \<Rightarrow>
                   if e = JSONDecodeError
                   then (case loads (repair out) of
                           Inr metadata \<Rightarrow> (Inr metadata, w1)
                         | Inl e' \<Rightarrow> (Inl e', w1))
                   else (Inr (JObject []), emit (EvLogError ''Something went wrong :('') w1))
         else (Inr (JObject []), emit (EvLogError (script_failed url ''write metadata'' returncode)) w1))"

definition script_download_thumbnail :: "env \<Rightarrow> string \<Rightarrow> world \<Rightarrow> unit result" where
  "script_download_thumbnail E url w =
     (let ((returncode, out), w1) = subprocess_run E (script_thumbnail_command E url) w
      in if \<not> returncode = 0
         then (Inr (), emit (EvLogError (script_failed url ''write thumbnail'' returncode)) w1)
         else (Inr (), w1))"

section \<open>Example inputs\<close>

text \<open>
  A downloader that exits with a given code and output and leaves the world alone, and
  a web server with one JPEG and one PNG image; a working directory holding one M4A
  file whose tag container is present and empty; the metadata record of the
  specification's example.
\<close>

definition example_env :: "int \<Rightarrow> bytes \<Rightarrow> env" where
  "example_env returncode out =
     \<lparr>cwd = [''home'', ''user''],
      yt_dlp_path = [''home'', ''venv'', ''Scripts'', ''yt-dlp.exe''],
      youtube_dl = [''home'', ''user'', ''.venv'', ''Scripts'', ''youtube-dl.exe''],
      http_get = (\<lambda>u. if u = ''https://example.com/cover.jpg'' then Some ''JFIF-bytes''
                      else if u = ''https://example.com/cover.png'' then Some ''PNG-bytes''
                      else None),
      downloader = (\<lambda>command w. ((returncode, out), w))\<rparr>"

definition track_m4a :: path where
  "track_m4a = [''home'', ''user'', ''track.m4a'']"

definition example_world :: world where
  "example_world =
     \<lparr>files = [track_m4a \<mapsto> MP4File (Some Map.empty)],
      dirs = {[''home''], [''home'', ''user'']},
      log = []\<rparr>"

definition example_metadata :: json where
  "example_metadata =
     JObject [(''title'', JString ''Song A''), (''channel'', JString ''Artist X''),
              (''upload_date'', JString ''20230115''),
              (''webpage_url'', JString ''https://example.com/v''),
              (''description'', JString ''desc''),
              (''thumbnail'', JString ''https://example.com/cover.jpg'')]"

definition track_opus :: path where
  "track_opus = [''home'', ''user'', ''track.opus'']"

definition opus_world :: world where
  "opus_world =
     \<lparr>files = [track_opus \<mapsto> OpusFile []],
      dirs = {[''home''], [''home'', ''user'']},
      log = []\<rparr>"

definition track_mp3 :: path where
  "track_mp3 = [''home'', ''user'', ''track.mp3'']"

definition mp3_world :: world where
  "mp3_world =
     \<lparr>files = [track_mp3 \<mapsto> MP3File (Some Map.empty)],
      dirs = {[''home''], [''home'', ''user'']},
      log = []\<rparr>"

text \<open>A video file in an MP4 container, and a text file.\<close>

definition clip_mp4 :: path where
  "clip_mp4 = [''home'', ''user'', ''clip.mp4'']"

definition notes_txt :: path where
  "notes_txt = [''home'', ''user'', ''notes.txt'']"

definition clip_world :: world where
  "clip_world =
     \<lparr>files = [clip_mp4 \<mapsto> MP4File (Some Map.empty), notes_txt \<mapsto> Blob ''notes''],
      dirs = {[''home''], [''home'', ''user'']},
      log = []\<rparr>"

text \<open>An M4A file that lies at the place of the scratch cover file.\<close>

definition scratch_world :: world where
  "scratch_world =
     \<lparr>files = [[''home'', ''user'', ''cover.jpg''] \<mapsto> MP4File (Some Map.empty)],
      dirs = {[''home''], [''home'', ''user'']},
      log = []\<rparr>"

text \<open>The tag container the example record gives an empty one, by its five text fields.\<close>

definition example_tags :: tags where
  "example_tags =
     [key_nam \<mapsto> TagText [''Song A''], key_ART \<mapsto> TagText [''Artist X''],
      key_day \<mapsto> TagText [''20230115''], key_cmt \<mapsto> TagText [''https://example.com/v''],
      ''desc'' \<mapsto> TagText [''desc'']]"

text \<open>The arguments of a run that tags an existing file.\<close>

definition tag_args :: "path \<Rightarrow> args" where
  "tag_args p =
     \<lparr>arg_url = ''https://youtu.be/x'', arg_output_file_path = None, arg_metadata_only = False,
      arg_download_thumbnail = False, arg_set_m4a_metadata = Some p\<rparr>"

text \<open>The example record without its thumbnail.\<close>

definition five_fields :: json where
  "five_fields =
     JObject [(''title'', JString ''Song A''), (''channel'', JString ''Artist X''),
              (''upload_date'', JString ''20230115''),
              (''webpage_url'', JString ''https://example.com/v''),
              (''description'', JString ''desc'')]"


section \<open>Downloading\<close>

lemma mkdir_parent_ok:
  "\<not> list_ex (\<lambda>q. files w q \<noteq> None) (prefixes (parent fp)) \<Longrightarrow>
   mkdir_parent fp w = (Inr (), emit (EvMkdir (parent fp)) (w\<lparr>dirs := dirs w \<union> set (prefixes (parent fp))\<rparr>))"
  by (simp add: mkdir_parent_def mkdir_parents_def)

text \<open>
  Claim C10.  When no ancestor of the output path is a regular file, both
  \<open>download_audio_with_metadata\<close> and \<open>download_thumbnail\<close> hand the downloader a
  world in which the parent directory of the output path and all its ancestors are
  directories, with the directory creation logged before the process is run and no file
  changed; whatever the downloader then does, and whatever its exit code, the outcome
  is computed from that one call.  So the directories are there also when the
  downloader exits non-zero and the operation raises.
\<close>

theorem downloads_create_parent_directory_first:
  assumes "\<not> list_ex (\<lambda>q. files w q \<noteq> None) (prefixes (parent (output_path E file_path)))"
  shows "\<exists>w1 w1'.
           set (prefixes (parent (output_path E file_path))) \<subseteq> dirs w1 \<and>
           files w1 = files w \<and>
           log w1 = log w @ [EvMkdir (parent (output_path E file_path)),
                             EvPprint (audio_command E (output_path E file_path) url),
                             EvRun (audio_command E (output_path E file_path) url)] \<and>
           set (prefixes (parent (output_path E file_path))) \<subseteq> dirs w1' \<and>
           files w1' = files w \<and>
           log w1' = log w @ [EvMkdir (parent (output_path E file_path)),
                              EvRun (thumbnail_command E (output_path E file_path) url)] \<and>
           (\<forall>D. download_audio_with_metadata (E\<lparr>downloader := D\<rparr>) url file_path w =
                 (case D (audio_command E (output_path E file_path) url) w1 of
                    ((returncode, out), w2) \<Rightarrow>
                      (if returncode = 0 then Inr ()
                       else Inl (Exception (download_failed url returncode)), w2))) \<and>
           (\<forall>D. download_thumbnail (E\<lparr>downloader := D\<rparr>) url file_path w =
                 (case D (thumbnail_command E (output_path E file_path) url) w1' of
                    ((returncode, out), w2) \<Rightarrow>
                      (if returncode = 0 then Inr ()
                       else Inl (Exception (download_failed url returncode)), w2)))"
proof -
  let ?fp = "output_path E file_path"
  let ?w0 = "emit (EvMkdir (parent ?fp)) (w\<lparr>dirs := dirs w \<union> set (prefixes (parent ?fp))\<rparr>)"
  let ?ca = "audio_command E ?fp url"
  let ?ct = "thumbnail_command E ?fp url"
  have op: "output_path (E\<lparr>downloader := D\<rparr>) file_path = ?fp" for D
    by (simp add: output_path_def split: option.splits)
  have ca: "audio_command (E\<lparr>downloader := D\<rparr>) ?fp url = ?ca" for D
    by (simp add: audio_command_def)
  have ct: "thumbnail_command (E\<lparr>downloader := D\<rparr>) ?fp url = ?ct" for D
    by (simp add: thumbnail_command_def)
  have mk: "mkdir_parent ?fp w = (Inr (), ?w0)"
    using assms by (rule mkdir_parent_ok)
  show ?thesis
    apply (rule exI [of _ "emit (EvRun ?ca) (emit (EvPprint ?ca) ?w0)"])
    apply (rule exI [of _ "emit (EvRun ?ct) ?w0"])
    apply (simp add: emit_def download_audio_with_metadata_def download_thumbnail_def op ca ct mk
        andthen_def subprocess_run_def Let_def split: prod.splits)
    done
qed

theorem downloads_create_parent_directory_first_witness:
  "\<not> list_ex (\<lambda>q. files example_world q \<noteq> None)
       (prefixes (parent (output_path (example_env 1 []) (Some [''music'', ''new'', default_template])))) \<and>
   (\<exists>w2. fst (download_audio_with_metadata (example_env 1 []) ''https://youtu.be/x''
               (Some [''music'', ''new'', default_template]) example_world) =
            Inl (Exception (download_failed ''https://youtu.be/x'' 1)) \<and>
         snd (download_audio_with_metadata (example_env 1 []) ''https://youtu.be/x''
               (Some [''music'', ''new'', default_template]) example_world) = w2 \<and>
         [''music'', ''new''] \<in> dirs w2 \<and> [''music''] \<in> dirs w2)"
proof -
  let ?E = "example_env 1 []"
  let ?fp = "Some [''music'', ''new'', default_template]"
  have h: "\<not> list_ex (\<lambda>q. files example_world q \<noteq> None) (prefixes (parent (output_path ?E ?fp)))"
    by (simp add: output_path_def parent_def example_world_def track_m4a_def)
  have E: "?E\<lparr>downloader := downloader ?E\<rparr> = ?E"
    by simp
  from downloads_create_parent_directory_first [OF h, of "''https://youtu.be/x''"]
  obtain w1 where d: "set (prefixes (parent (output_path ?E ?fp))) \<subseteq> dirs w1"
    and r: "\<forall>D. download_audio_with_metadata (?E\<lparr>downloader := D\<rparr>) ''https://youtu.be/x'' ?fp example_world =
                 (case D (audio_command ?E (output_path ?E ?fp) ''https://youtu.be/x'') w1 of
                    ((returncode, out), w2) \<Rightarrow>
                      (if returncode = 0 then Inr ()
                       else Inl (Exception (download_failed ''https://youtu.be/x'' returncode)), w2))"
    by blast
  from r have "download_audio_with_metadata (?E\<lparr>downloader := downloader ?E\<rparr>) ''https://youtu.be/x'' ?fp example_world =
      (Inl (Exception (download_failed ''https://youtu.be/x'' 1)), w1)"
    by (simp add: example_env_def)
  then have eq: "download_audio_with_metadata ?E ''https://youtu.be/x'' ?fp example_world =
      (Inl (Exception (download_failed ''https://youtu.be/x'' 1)), w1)"
    by (simp only: E)
  from d have "[''music'', ''new''] \<in> dirs w1 \<and> [''music''] \<in> dirs w1"
    by (simp add: output_path_def parent_def)
  with h eq show ?thesis by simp
qed

text \<open>
  Claim C5, as amended.  When the downloader exits non-zero, the three operations of
  the utilities module raise an exception whose message holds the URL and the exit
  code, and leave the world as the downloader left it: nothing is done after the failed
  call.  The functions of the same names in the older script do not raise: they log
  such a message and return normally, \<open>fetch_metadata\<close> with the empty dictionary.
\<close>

theorem downloader_failure_raised_or_logged:
  "(fst (fst (subprocess_run E (metadata_command E url) w)) \<noteq> 0 \<longrightarrow>
      fetch_metadata E url w =
        (Inl (Exception (metadata_failed url (fst (fst (subprocess_run E (metadata_command E url) w))))),
         snd (subprocess_run E (metadata_command E url) w))) \<and>
   (fst (mkdir_parent (output_path E file_path) w) = Inr () \<and>
    fst (fst (subprocess_run E (audio_command E (output_path E file_path) url)
               (emit (EvPprint (audio_command E (output_path E file_path) url))
                  (snd (mkdir_parent (output_path E file_path) w))))) \<noteq> 0 \<longrightarrow>
      download_audio_with_metadata E url file_path w =
        (Inl (Exception (download_failed url
           (fst (fst (subprocess_run E (audio_command E (output_path E file_path) url)
               (emit (EvPprint (audio_command E (output_path E file_path) url))
                  (snd (mkdir_parent (output_path E file_path) w)))))))),
         snd (subprocess_run E (audio_command E (output_path E file_path) url)
               (emit (EvPprint (audio_command E (output_path E file_path) url))
                  (snd (mkdir_parent (output_path E file_path) w)))))) \<and>
   (fst (mkdir_parent (output_path E file_path) w) = Inr () \<and>
    fst (fst (subprocess_run E (thumbnail_command E (output_path E file_path) url)
               (snd (mkdir_parent (output_path E file_path) w)))) \<noteq> 0 \<longrightarrow>
      download_thumbnail E url file_path w =
        (Inl (Exception (download_failed url
           (fst (fst (subprocess_run E (thumbnail_command E (output_path E file_path) url)
               (snd (mkdir_parent (output_path E file_path) w))))))),
         snd (subprocess_run E (thumbnail_command E (output_path E file_path) url)
               (snd (mkdir_parent (output_path E file_path) w))))) \<and>
   (fst (fst (subprocess_run E (script_metadata_command E url) w)) \<noteq> 0 \<longrightarrow>
      script_fetch_metadata E url w =
        (Inr (JObject []),
         emit (EvLogError (script_failed url ''write metadata''
                 (fst (fst (subprocess_run E (script_metadata_command E url) w)))))
           (snd (subprocess_run E (script_metadata_command E url) w)))) \<and>
   (fst (fst (subprocess_run E (script_audio_command E url) w)) \<noteq> 0 \<longrightarrow>
      script_download_audio_with_metadata E url w =
        (Inr (),
         emit (EvLogError (script_failed url ''download video with metadata''
                 (fst (fst (subprocess_run E (script_audio_command E url) w)))))
           (snd (subprocess_run E (script_audio_command E url) w)))) \<and>
   (fst (fst (subprocess_run E (script_thumbnail_command E url) w)) \<noteq> 0 \<longrightarrow>
      script_download_thumbnail E url w =
        (Inr (),
         emit (EvLogError (script_failed url ''write thumbnail''
                 (fst (fst (subprocess_run E (script_thumbnail_command E url) w)))))
           (snd (subprocess_run E (script_thumbnail_command E url) w))))"
  by (auto simp: fetch_metadata_def download_audio_with_metadata_def download_thumbnail_def
      script_fetch_metadata_def script_download_audio_with_metadata_def
      script_download_thumbnail_def andthen_def Let_def split: prod.splits sum.splits)

text \<open>
  Claim C5 as stated fails on the older script: with a downloader that exits with
  code 1, its \<open>download_audio_with_metadata\<close> returns normally.
\<close>

theorem script_download_failure_not_raised:
  "fst (fst (subprocess_run (example_env 1 []) (script_audio_command (example_env 1 []) ''https://youtu.be/x'')
              example_world)) = 1 \<and>
   fst (script_download_audio_with_metadata (example_env 1 []) ''https://youtu.be/x'' example_world) = Inr ()"
  by (simp add: script_download_audio_with_metadata_def subprocess_run_def example_env_def)

theorem downloader_failure_raised_or_logged_witness:
  "fst (fst (subprocess_run (example_env 1 []) (metadata_command (example_env 1 []) ''https://youtu.be/x'')
              example_world)) \<noteq> 0 \<and>
   fst (mkdir_parent (output_path (example_env 1 []) None) example_world) = Inr () \<and>
   fst (fst (subprocess_run (example_env 1 [])
              (audio_command (example_env 1 []) (output_path (example_env 1 []) None) ''https://youtu.be/x'')
              (emit (EvPprint (audio_command (example_env 1 []) (output_path (example_env 1 []) None)
                                 ''https://youtu.be/x''))
                 (snd (mkdir_parent (output_path (example_env 1 []) None) example_world))))) \<noteq> 0 \<and>
   fst (fst (subprocess_run (example_env 1 [])
              (thumbnail_command (example_env 1 []) (output_path (example_env 1 []) None) ''https://youtu.be/x'')
              (snd (mkdir_parent (output_path (example_env 1 []) None) example_world)))) \<noteq> 0 \<and>
   fst (fst (subprocess_run (example_env 1 []) (script_metadata_command (example_env 1 []) ''https://youtu.be/x'')
              example_world)) \<noteq> 0 \<and>
   fst (fst (subprocess_run (example_env 1 []) (script_audio_command (example_env 1 []) ''https://youtu.be/x'')
              example_world)) \<noteq> 0 \<and>
   fst (fst (subprocess_run (example_env 1 []) (script_thumbnail_command (example_env 1 []) ''https://youtu.be/x'')
              example_world)) \<noteq> 0 \<and>
   fst (fetch_metadata (example_env 1 []) ''https://youtu.be/x'' example_world) =
     Inl (Exception (metadata_failed ''https://youtu.be/x'' 1)) \<and>
   fst (download_audio_with_metadata (example_env 1 []) ''https://youtu.be/x'' None example_world) =
     Inl (Exception (download_failed ''https://youtu.be/x'' 1)) \<and>
   fst (download_thumbnail (example_env 1 []) ''https://youtu.be/x'' None example_world) =
     Inl (Exception (download_failed ''https://youtu.be/x'' 1)) \<and>
   fst (script_fetch_metadata (example_env 1 []) ''https://youtu.be/x'' example_world) = Inr (JObject []) \<and>
   fst (script_download_audio_with_metadata (example_env 1 []) ''https://youtu.be/x'' example_world) = Inr () \<and>
   fst (script_download_thumbnail (example_env 1 []) ''https://youtu.be/x'' example_world) = Inr ()"
proof -
  have run: "fst (fst (subprocess_run (example_env 1 []) c w)) = 1" for c w
    by (simp add: subprocess_run_def example_env_def)
  have mk: "fst (mkdir_parent (output_path (example_env 1 []) None) example_world) = Inr ()"
    by (simp add: mkdir_parent_def mkdir_parents_def output_path_def joinpath_def parent_def
        example_env_def example_world_def track_m4a_def)
  show ?thesis
    using downloader_failure_raised_or_logged
      [of "example_env 1 []" "''https://youtu.be/x''" example_world None]
    by (simp add: run mk)
qed




section \<open>Writing tags\<close>

lemmas example_run =
  set_m4a_metadata_def set_opus_metadata_def set_cover_def returning_def sbind_def andthen_def
  open_mp4_def open_mp3_def open_opus_def save_mp4_def save_mp3_def save_opus_def id3_add_def
  getitem_def mkdir_parent_def mkdir_parents_def requests_get_def write_bytes_def read_bytes_def
  handle_set_def mp4_setitem_def mp4_text_def render_covers_def vorbis_setitem_def
  vorbis_write_def lower_def lower_char_def bytes_of_cover_def is_dir_def Let_def cover_path_def
  joinpath_def parent_def endswith_def as_posix_def cover_is_jpeg_def suffix_to_prefix
  example_env_def example_world_def example_metadata_def track_m4a_def key_nam_def key_ART_def
  key_day_def key_cmt_def example_tags_def emit_def

text \<open>
  Claim C2 at the example of the specification.  The call succeeds and the five text
  fields arrive in the file, the cover does not: \<open>set_cover\<close> saves the cover through a
  handle of its own, and the final save of the first handle, opened before, writes its
  tag container, which has no \<^verbatim>\<open>covr\<close> atom, over the one on disk.  The last conjunct shows
  the cover that \<open>set_cover\<close> alone leaves in the file.
\<close>

theorem m4a_cover_lost:
  "fst (set_m4a_metadata (example_env 0 []) track_m4a example_metadata example_world) = Inr () \<and>
   files (snd (set_m4a_metadata (example_env 0 []) track_m4a example_metadata example_world)) track_m4a =
     Some (MP4File (Some example_tags)) \<and>
   example_tags ''covr'' = None \<and>
   files (snd (set_cover (example_env 0 []) ''https://example.com/cover.jpg'' (Some track_m4a) example_world))
       track_m4a = Some (MP4File (Some [''covr'' \<mapsto> TagCovers [(FORMAT_JPEG, ''JFIF-bytes'')]]))"
  by (simp add: example_run)

text \<open>
  Claim C6 at the same example, called twice.  Both calls succeed and the second leaves
  every file as the first left it, so the tags are the same; but the file holds no
  picture after either call, not exactly one, for the reason given under C2.  The last
  conjunct: \<open>set_cover\<close> alone, called twice, leaves exactly one cover.
\<close>

theorem m4a_twice_no_picture:
  "fst (set_m4a_metadata (example_env 0 []) track_m4a example_metadata example_world) = Inr () \<and>
   fst (set_m4a_metadata (example_env 0 []) track_m4a example_metadata
          (snd (set_m4a_metadata (example_env 0 []) track_m4a example_metadata example_world))) = Inr () \<and>
   files (snd (set_m4a_metadata (example_env 0 []) track_m4a example_metadata
          (snd (set_m4a_metadata (example_env 0 []) track_m4a example_metadata example_world)))) =
     files (snd (set_m4a_metadata (example_env 0 []) track_m4a example_metadata example_world)) \<and>
   files (snd (set_m4a_metadata (example_env 0 []) track_m4a example_metadata
          (snd (set_m4a_metadata (example_env 0 []) track_m4a example_metadata example_world)))) track_m4a =
     Some (MP4File (Some example_tags)) \<and>
   example_tags ''covr'' = None \<and>
   files (snd (set_cover (example_env 0 []) ''https://example.com/cover.jpg'' (Some track_m4a)
          (snd (set_cover (example_env 0 []) ''https://example.com/cover.jpg'' (Some track_m4a)
                  example_world)))) track_m4a =
     Some (MP4File (Some [''covr'' \<mapsto> TagCovers [(FORMAT_JPEG, ''JFIF-bytes'')]]))"
proof (intro conjI)
  show "files (snd (set_m4a_metadata (example_env 0 []) track_m4a example_metadata
          (snd (set_m4a_metadata (example_env 0 []) track_m4a example_metadata example_world)))) =
     files (snd (set_m4a_metadata (example_env 0 []) track_m4a example_metadata example_world))"
    by (rule ext) (simp add: example_run)
qed (simp_all add: example_run)

text \<open>
  Claim C8 at a PNG thumbnail.  On an M4A file the format is computed from the URL, as
  a text, but what is stored is \<^verbatim>\<open>bytes(albumart)\<close>, a plain byte string without the
  format attribute: the library writes the cover as JPEG.  On an MP3 file the same URL
  is recorded as \<^verbatim>\<open>image/png\<close>.
\<close>

theorem mp4_cover_format_dropped:
  "\<not> cover_is_jpeg ''https://example.com/cover.png'' \<and>
   fst (set_cover (example_env 0 []) ''https://example.com/cover.png'' (Some track_m4a) example_world) = Inr () \<and>
   files (snd (set_cover (example_env 0 []) ''https://example.com/cover.png'' (Some track_m4a) example_world))
       track_m4a = Some (MP4File (Some [''covr'' \<mapsto> TagCovers [(FORMAT_JPEG, ''PNG-bytes'')]])) \<and>
   files (snd (set_cover (example_env 0 []) ''https://example.com/cover.png'' (Some track_mp3) mp3_world))
       track_mp3 = Some (MP3File (Some [''APIC:Cover'' \<mapsto> TagAPIC 3 ''image/png'' 3 ''Cover'' ''PNG-bytes'']))"
  by (simp add: example_run mp3_world_def track_mp3_def)

lemma files_emit [simp]: "files (emit e w) = files w"
  by (simp add: emit_def)

lemma dirs_emit [simp]: "dirs (emit e w) = dirs w"
  by (simp add: emit_def)

lemma log_emit [simp]: "log (emit e w) = log w @ [e]"
  by (simp add: emit_def)





lemma fetch_metadata_world:
  "snd (fetch_metadata E url w) = snd (subprocess_run E (metadata_command E url) w)"
  by (simp add: fetch_metadata_def Let_def split: prod.splits sum.splits)

lemma set_cover_embeds:
  assumes f: "files w fp = Some (MP4File (Some t))" and ne: "fp \<noteq> cover_path E"
    and mp3: "\<not> endswith (as_posix fp) ''.mp3''"
    and h: "http_get E cover = Some content"
    and mk: "fst (mkdir_parent fp w) = Inr ()"
    and wr: "fst (write_bytes (cover_path E) content (emit (EvHttpGet cover) (snd (mkdir_parent fp w)))) = Inr ()"
  shows "fst (set_cover E cover (Some fp) w) = Inr () \<and>
         files (snd (set_cover E cover (Some fp) w)) =
           (files w)(cover_path E \<mapsto> Blob content,
                     fp \<mapsto> MP4File (Some (t(''covr'' \<mapsto> TagCovers [(FORMAT_JPEG, content)])))) \<and>
         log (snd (set_cover E cover (Some fp) w)) =
           log w @ [EvMkdir (parent fp), EvHttpGet cover, EvWrite (cover_path E),
                    EvOpen MP4 fp, EvSave MP4 fp]"
  using assms
  by (auto simp: set_cover_def andthen_def mkdir_parent_def mkdir_parents_def requests_get_def
      write_bytes_def open_mp4_def read_bytes_def save_mp4_def render_covers_def bytes_of_cover_def
      Let_def split: if_splits)

text \<open>
  Claim C4, as amended.  In the command-line script, when a file is to be tagged and
  the lower-cased suffix of its path is neither \<^verbatim>\<open>.m4a\<close> nor \<^verbatim>\<open>.opus\<close> (so for every
  extension outside \<^verbatim>\<open>.m4a\<close>, \<^verbatim>\<open>.mp3\<close>, \<^verbatim>\<open>.opus\<close>, and for \<^verbatim>\<open>.mp3\<close> too), \<open>main\<close>
  first fetches the metadata; if that raises, \<open>main\<close> raises the same error and
  prints nothing; otherwise it prints the message naming the suffix and returns
  normally.  Either way the world is the one the downloader left, but for the printed
  line: no file is opened or saved by the tag library.  The library function
  \<open>set_cover\<close> makes no such check: on a path that does not end in \<^verbatim>\<open>.mp3\<close>, whatever
  its extension, an MP4 file with a tag container is opened and saved with the cover in
  it.
\<close>

theorem unsupported_extension_reported:
  "(\<not> arg_metadata_only a \<and> \<not> arg_download_thumbnail a \<and> arg_set_m4a_metadata a = Some file_path \<and>
    lower (path_suffix file_path) \<noteq> ''.m4a'' \<and> lower (path_suffix file_path) \<noteq> ''.opus'' \<longrightarrow>
      main E a w =
        (case fst (fetch_metadata E (arg_url a) w) of
           Inl e \<Rightarrow> (Inl e, snd (subprocess_run E (metadata_command E (arg_url a)) w))
         | Inr metadata \<Rightarrow>
             (Inr (), emit (EvPrint (''Unsupported file format: '' @ lower (path_suffix file_path)))
                        (snd (subprocess_run E (metadata_command E (arg_url a)) w))))) \<and>
   (files w fp = Some (MP4File (Some t)) \<and> fp \<noteq> cover_path E \<and>
    \<not> endswith (as_posix fp) ''.mp3'' \<and> http_get E cover = Some content \<and>
    fst (mkdir_parent fp w) = Inr () \<and>
    fst (write_bytes (cover_path E) content (emit (EvHttpGet cover) (snd (mkdir_parent fp w)))) = Inr () \<longrightarrow>
      fst (set_cover E cover (Some fp) w) = Inr () \<and>
      files (snd (set_cover E cover (Some fp) w)) fp =
        Some (MP4File (Some (t(''covr'' \<mapsto> TagCovers [(FORMAT_JPEG, content)])))) \<and>
      log (snd (set_cover E cover (Some fp) w)) =
        log w @ [EvMkdir (parent fp), EvHttpGet cover, EvWrite (cover_path E),
                 EvOpen MP4 fp, EvSave MP4 fp])"
proof (intro conjI impI)
  assume a: "\<not> arg_metadata_only a \<and> \<not> arg_download_thumbnail a \<and> arg_set_m4a_metadata a = Some file_path \<and>
    lower (path_suffix file_path) \<noteq> ''.m4a'' \<and> lower (path_suffix file_path) \<noteq> ''.opus''"
  obtain r w1 where f: "fetch_metadata E (arg_url a) w = (r, w1)"
    by (cases "fetch_metadata E (arg_url a) w")
  with fetch_metadata_world [of E "arg_url a" w]
  have w1: "snd (subprocess_run E (metadata_command E (arg_url a)) w) = w1" by simp
  from a f show "main E a w =
        (case fst (fetch_metadata E (arg_url a) w) of
           Inl e \<Rightarrow> (Inl e, snd (subprocess_run E (metadata_command E (arg_url a)) w))
         | Inr metadata \<Rightarrow>
             (Inr (), emit (EvPrint (''Unsupported file format: '' @ lower (path_suffix file_path)))
                        (snd (subprocess_run E (metadata_command E (arg_url a)) w))))"
    unfolding w1 by (cases r) (simp_all add: main_def andthen_def)
next
  assume a: "files w fp = Some (MP4File (Some t)) \<and> fp \<noteq> cover_path E \<and>
    \<not> endswith (as_posix fp) ''.mp3'' \<and> http_get E cover = Some content \<and>
    fst (mkdir_parent fp w) = Inr () \<and>
    fst (write_bytes (cover_path E) content (emit (EvHttpGet cover) (snd (mkdir_parent fp w)))) = Inr ()"
  then have s: "fst (set_cover E cover (Some fp) w) = Inr () \<and>
         files (snd (set_cover E cover (Some fp) w)) =
           (files w)(cover_path E \<mapsto> Blob content,
                     fp \<mapsto> MP4File (Some (t(''covr'' \<mapsto> TagCovers [(FORMAT_JPEG, content)])))) \<and>
         log (snd (set_cover E cover (Some fp) w)) =
           log w @ [EvMkdir (parent fp), EvHttpGet cover, EvWrite (cover_path E),
                    EvOpen MP4 fp, EvSave MP4 fp]"
    by (intro set_cover_embeds) simp_all
  from s show "fst (set_cover E cover (Some fp) w) = Inr ()" by simp
  from s show "files (snd (set_cover E cover (Some fp) w)) fp =
        Some (MP4File (Some (t(''covr'' \<mapsto> TagCovers [(FORMAT_JPEG, content)]))))" by simp
  from s show "log (snd (set_cover E cover (Some fp) w)) =
        log w @ [EvMkdir (parent fp), EvHttpGet cover, EvWrite (cover_path E),
                 EvOpen MP4 fp, EvSave MP4 fp]" by simp
qed

lemma suffix_clip: "lower (path_suffix clip_mp4) = ''.mp4''"
  by (simp add: path_suffix_def clip_mp4_def lower_def lower_char_def Let_def)

lemma suffix_notes: "lower (path_suffix notes_txt) = ''.txt''"
  by (simp add: path_suffix_def notes_txt_def lower_def lower_char_def Let_def)

lemma loads_empty_object: "loads ''{}'' = Inr (JObject [])"
  by code_simp

text \<open>
  Claim C4 as stated fails in two ways.  \<open>set_cover\<close> on \<^verbatim>\<open>clip.mp4\<close>, whose extension
  is none of the three, opens the file with the tag library and changes it.  And
  \<open>main\<close> on \<^verbatim>\<open>notes.txt\<close>, with a downloader that exits with code 1, raises the
  downloader's failure and reports no unsupported format.
\<close>

theorem mp4_suffix_tagged_and_fetch_first:
  "lower (path_suffix clip_mp4) = ''.mp4'' \<and>
   fst (set_cover (example_env 0 []) ''https://example.com/cover.jpg'' (Some clip_mp4) clip_world) = Inr () \<and>
   files clip_world clip_mp4 = Some (MP4File (Some Map.empty)) \<and>
   files (snd (set_cover (example_env 0 []) ''https://example.com/cover.jpg'' (Some clip_mp4) clip_world))
     clip_mp4 = Some (MP4File (Some [''covr'' \<mapsto> TagCovers [(FORMAT_JPEG, ''JFIF-bytes'')]])) \<and>
   log (snd (set_cover (example_env 0 []) ''https://example.com/cover.jpg'' (Some clip_mp4) clip_world)) =
     [EvMkdir [''home'', ''user''], EvHttpGet ''https://example.com/cover.jpg'',
      EvWrite [''home'', ''user'', ''cover.jpg''], EvOpen MP4 clip_mp4, EvSave MP4 clip_mp4] \<and>
   lower (path_suffix notes_txt) = ''.txt'' \<and>
   main (example_env 1 []) (tag_args notes_txt) clip_world =
     (Inl (Exception (metadata_failed ''https://youtu.be/x'' 1)),
      emit (EvRun (metadata_command (example_env 1 []) ''https://youtu.be/x'')) clip_world)"
proof -
  have a: "fst (set_cover (example_env 0 []) ''https://example.com/cover.jpg'' (Some clip_mp4) clip_world) = Inr () \<and>
   files clip_world clip_mp4 = Some (MP4File (Some Map.empty)) \<and>
   files (snd (set_cover (example_env 0 []) ''https://example.com/cover.jpg'' (Some clip_mp4) clip_world))
     clip_mp4 = Some (MP4File (Some [''covr'' \<mapsto> TagCovers [(FORMAT_JPEG, ''JFIF-bytes'')]])) \<and>
   log (snd (set_cover (example_env 0 []) ''https://example.com/cover.jpg'' (Some clip_mp4) clip_world)) =
     [EvMkdir [''home'', ''user''], EvHttpGet ''https://example.com/cover.jpg'',
      EvWrite [''home'', ''user'', ''cover.jpg''], EvOpen MP4 clip_mp4, EvSave MP4 clip_mp4]"
    by (simp add: example_run clip_world_def clip_mp4_def notes_txt_def)
  have b: "main (example_env 1 []) (tag_args notes_txt) clip_world =
     (Inl (Exception (metadata_failed ''https://youtu.be/x'' 1)),
      emit (EvRun (metadata_command (example_env 1 []) ''https://youtu.be/x'')) clip_world)"
    by (simp add: main_def tag_args_def fetch_metadata_def subprocess_run_def andthen_def
        example_env_def)
  from suffix_clip suffix_notes a b show ?thesis by simp
qed

theorem unsupported_extension_reported_witness:
  "main (example_env 0 ''{}'') (tag_args notes_txt) clip_world =
     (Inr (), emit (EvPrint ''Unsupported file format: .txt'')
                (emit (EvRun (metadata_command (example_env 0 ''{}'') ''https://youtu.be/x'')) clip_world)) \<and>
   fst (set_cover (example_env 0 ''{}'') ''https://example.com/cover.jpg'' (Some clip_mp4) clip_world) = Inr () \<and>
   files (snd (set_cover (example_env 0 ''{}'') ''https://example.com/cover.jpg'' (Some clip_mp4) clip_world))
     clip_mp4 = Some (MP4File (Some [''covr'' \<mapsto> TagCovers [(FORMAT_JPEG, ''JFIF-bytes'')]]))"
proof -
  let ?E = "example_env 0 ''{}''"
  have a: "\<not> arg_metadata_only (tag_args notes_txt) \<and> \<not> arg_download_thumbnail (tag_args notes_txt) \<and>
      arg_set_m4a_metadata (tag_args notes_txt) = Some notes_txt \<and>
      lower (path_suffix notes_txt) \<noteq> ''.m4a'' \<and> lower (path_suffix notes_txt) \<noteq> ''.opus''"
    by (simp add: tag_args_def suffix_notes)
  have run: "subprocess_run ?E c w = ((0, ''{}''), emit (EvRun c) w)" for c w
    by (simp add: subprocess_run_def example_env_def)
  have f: "fst (fetch_metadata ?E ''https://youtu.be/x'' clip_world) = Inr (JObject [])"
    by (simp add: fetch_metadata_def run loads_empty_object)
  have u: "arg_url (tag_args notes_txt) = ''https://youtu.be/x''"
    by (simp add: tag_args_def)
  have b: "files clip_world clip_mp4 = Some (MP4File (Some Map.empty)) \<and> clip_mp4 \<noteq> cover_path ?E \<and>
    \<not> endswith (as_posix clip_mp4) ''.mp3'' \<and>
    http_get ?E ''https://example.com/cover.jpg'' = Some ''JFIF-bytes'' \<and>
    fst (mkdir_parent clip_mp4 clip_world) = Inr () \<and>
    fst (write_bytes (cover_path ?E) ''JFIF-bytes''
          (emit (EvHttpGet ''https://example.com/cover.jpg'') (snd (mkdir_parent clip_mp4 clip_world)))) = Inr ()"
    by (simp add: example_run clip_world_def clip_mp4_def notes_txt_def)
  note t = unsupported_extension_reported
    [where a = "tag_args notes_txt" and file_path = notes_txt and E = ?E and w = clip_world
       and fp = clip_mp4 and t = Map.empty and cover = "''https://example.com/cover.jpg''"
       and content = "''JFIF-bytes''"]
  from t a have "main ?E (tag_args notes_txt) clip_world =
        (case fst (fetch_metadata ?E (arg_url (tag_args notes_txt)) clip_world) of
           Inl e \<Rightarrow> (Inl e, snd (subprocess_run ?E (metadata_command ?E (arg_url (tag_args notes_txt))) clip_world))
         | Inr metadata \<Rightarrow>
             (Inr (), emit (EvPrint (''Unsupported file format: '' @ lower (path_suffix notes_txt)))
                        (snd (subprocess_run ?E (metadata_command ?E (arg_url (tag_args notes_txt))) clip_world))))"
    by blast
  then have 1: "main ?E (tag_args notes_txt) clip_world =
     (Inr (), emit (EvPrint ''Unsupported file format: .txt'')
                (emit (EvRun (metadata_command ?E ''https://youtu.be/x'')) clip_world))"
    by (simp add: f u run suffix_notes)
  from t b have 2: "fst (set_cover ?E ''https://example.com/cover.jpg'' (Some clip_mp4) clip_world) = Inr () \<and>
      files (snd (set_cover ?E ''https://example.com/cover.jpg'' (Some clip_mp4) clip_world)) clip_mp4 =
        Some (MP4File (Some (Map.empty(''covr'' \<mapsto> TagCovers [(FORMAT_JPEG, ''JFIF-bytes'')]))))"
    by blast
  from 1 2 show ?thesis by simp
qed

lemma getitem_missing:
  assumes "k \<notin> fst ` set kvs"
  shows "getitem (JObject kvs) k = Inl (KeyError k)"
proof -
  from assms have "map_of kvs k = None" by (simp add: map_of_eq_None_iff)
  then show ?thesis by (simp add: getitem_def)
qed

lemma getitem_filter:
  "k \<noteq> k' \<Longrightarrow> getitem (JObject (filter (\<lambda>kv. fst kv \<noteq> k') kvs)) k = getitem (JObject kvs) k"
proof -
  assume ne: "k \<noteq> k'"
  have "map_of (filter (\<lambda>kv. fst kv \<noteq> k') kvs) k = map_of kvs k"
    using ne by (induction kvs) auto
  then show ?thesis by (simp add: getitem_def)
qed

lemma open_mp4_world: "snd (open_mp4 fp w) = emit (EvOpen MP4 fp) w"
  by (simp add: open_mp4_def split: option.splits fcontent.splits)

lemma open_opus_world: "snd (open_opus fp w) = emit (EvOpen OggOpus fp) w"
  by (simp add: open_opus_def split: option.splits fcontent.splits)

lemma set_m4a_missing:
  assumes none: "getitem md k = Inl e0"
    and k: "k \<in> {''title'', ''channel'', ''upload_date'', ''webpage_url'', ''description'', ''thumbnail''}"
  shows "\<exists>e. set_m4a_metadata E fp md w = (Inl e, emit (EvOpen MP4 fp) w)"
proof -
  obtain r where o: "open_mp4 fp w = (r, emit (EvOpen MP4 fp) w)"
    using open_mp4_world [of fp w] by (cases "open_mp4 fp w") simp
  show ?thesis
  proof (cases r)
    case (Inl x)
    with o show ?thesis by (simp add: set_m4a_metadata_def andthen_def)
  next
    case (Inr tg)
    with o none k show ?thesis
      by (auto simp: set_m4a_metadata_def andthen_def returning_def sbind_def
          split: sum.splits)
  qed
qed

lemma set_opus_missing:
  assumes none: "getitem md k = Inl e0"
    and k: "k \<in> {''title'', ''channel'', ''upload_date'', ''webpage_url'', ''description''}"
  shows "\<exists>e. set_opus_metadata E fp md w = (Inl e, emit (EvOpen OggOpus fp) w)"
proof -
  obtain r where o: "open_opus fp w = (r, emit (EvOpen OggOpus fp) w)"
    using open_opus_world [of fp w] by (cases "open_opus fp w") simp
  show ?thesis
  proof (cases r)
    case (Inl x)
    with o show ?thesis by (simp add: set_opus_metadata_def andthen_def)
  next
    case (Inr tg)
    with o none k show ?thesis
      by (auto simp: set_opus_metadata_def andthen_def returning_def Let_def
          split: sum.splits)
  qed
qed

text \<open>
  Claim C7, as amended.  For a metadata dictionary that lacks one of the six fields,
  \<open>set_m4a_metadata\<close> raises, and for one that lacks one of the five text fields,
  \<open>set_opus_metadata\<close> raises; in both cases nothing has been done but the opening of
  the file, so no field is written, defaulted or not.  \<open>set_opus_metadata\<close> does not
  read the thumbnail: it behaves on a dictionary without that field as on the
  dictionary with it.
\<close>

theorem missing_field_fails:
  "(k \<notin> fst ` set kvs \<and>
    k \<in> {''title'', ''channel'', ''upload_date'', ''webpage_url'', ''description'', ''thumbnail''} \<longrightarrow>
      (\<exists>e. set_m4a_metadata E fp (JObject kvs) w = (Inl e, emit (EvOpen MP4 fp) w))) \<and>
   (k \<notin> fst ` set kvs \<and>
    k \<in> {''title'', ''channel'', ''upload_date'', ''webpage_url'', ''description''} \<longrightarrow>
      (\<exists>e. set_opus_metadata E fp (JObject kvs) w = (Inl e, emit (EvOpen OggOpus fp) w))) \<and>
   set_opus_metadata E fp (JObject (filter (\<lambda>kv. fst kv \<noteq> ''thumbnail'') kvs)) w =
     set_opus_metadata E fp (JObject kvs) w"
proof (intro conjI impI)
  assume "k \<notin> fst ` set kvs \<and>
    k \<in> {''title'', ''channel'', ''upload_date'', ''webpage_url'', ''description'', ''thumbnail''}"
  then have n: "k \<notin> fst ` set kvs"
    and k: "k \<in> {''title'', ''channel'', ''upload_date'', ''webpage_url'', ''description'', ''thumbnail''}"
    by simp_all
  from set_m4a_missing [OF getitem_missing [OF n] k]
  show "\<exists>e. set_m4a_metadata E fp (JObject kvs) w = (Inl e, emit (EvOpen MP4 fp) w)" .
next
  assume "k \<notin> fst ` set kvs \<and>
    k \<in> {''title'', ''channel'', ''upload_date'', ''webpage_url'', ''description''}"
  then have n: "k \<notin> fst ` set kvs"
    and k: "k \<in> {''title'', ''channel'', ''upload_date'', ''webpage_url'', ''description''}"
    by simp_all
  from set_opus_missing [OF getitem_missing [OF n] k]
  show "\<exists>e. set_opus_metadata E fp (JObject kvs) w = (Inl e, emit (EvOpen OggOpus fp) w)" .
next
  show "set_opus_metadata E fp (JObject (filter (\<lambda>kv. fst kv \<noteq> ''thumbnail'') kvs)) w =
     set_opus_metadata E fp (JObject kvs) w"
    by (simp add: set_opus_metadata_def getitem_filter)
qed

text \<open>
  Claim C7 as stated fails on Opus files: with the five text fields and no thumbnail,
  \<open>set_opus_metadata\<close> succeeds and writes the five comments.
\<close>

theorem opus_ignores_missing_thumbnail:
  "getitem five_fields ''thumbnail'' = Inl (KeyError ''thumbnail'') \<and>
   fst (set_opus_metadata (example_env 0 []) track_opus five_fields opus_world) = Inr () \<and>
   files (snd (set_opus_metadata (example_env 0 []) track_opus five_fields opus_world)) track_opus =
     Some (OpusFile [(''TITLE'', ''Song A''), (''ARTIST'', ''Artist X''), (''DATE'', ''20230115''),
                     (''COMMENT'', ''https://example.com/v''), (''DESCRIPTION'', ''desc'')])"
  by (simp add: example_run five_fields_def opus_world_def track_opus_def)

theorem missing_field_fails_witness:
  "''title'' \<notin> fst ` set ([] :: (string \<times> json) list) \<and>
   set_m4a_metadata (example_env 0 []) track_m4a (JObject []) example_world =
     (Inl (KeyError ''title''), emit (EvOpen MP4 track_m4a) example_world) \<and>
   set_opus_metadata (example_env 0 []) track_opus (JObject []) opus_world =
     (Inl (KeyError ''title''), emit (EvOpen OggOpus track_opus) opus_world)"
proof -
  have h: "''title'' \<notin> fst ` set ([] :: (string \<times> json) list)" by simp
  have a: "fst (set_m4a_metadata (example_env 0 []) track_m4a (JObject []) example_world) = Inl (KeyError ''title'')"
    by (simp add: set_m4a_metadata_def returning_def sbind_def andthen_def open_mp4_def getitem_def
        example_world_def)
  have b: "fst (set_opus_metadata (example_env 0 []) track_opus (JObject []) opus_world) = Inl (KeyError ''title'')"
    by (simp add: set_opus_metadata_def returning_def andthen_def open_opus_def getitem_def
        opus_world_def)
  note t = missing_field_fails [where k = "''title''" and kvs = "[]" and E = "example_env 0 []"]
  from t [where fp = track_m4a and w = example_world] h a
  have 1: "set_m4a_metadata (example_env 0 []) track_m4a (JObject []) example_world =
     (Inl (KeyError ''title''), emit (EvOpen MP4 track_m4a) example_world)"
    by auto
  from t [where fp = track_opus and w = opus_world] h b
  have 2: "set_opus_metadata (example_env 0 []) track_opus (JObject []) opus_world =
     (Inl (KeyError ''title''), emit (EvOpen OggOpus track_opus) opus_world)"
    by auto
  from h 1 2 show ?thesis by blast
qed

lemma andthen_pair:
  "andthen (r, w) f = (case r of Inl e \<Rightarrow> (Inl e, w) | Inr x \<Rightarrow> f x w)"
  by (simp add: andthen_def)

lemma set_cover_error_keeps:
  assumes "set_cover E cover (Some fp) w = (Inl e, w')" and "fp \<noteq> cover_path E"
  shows "files w' fp = files w fp"
  using assms
  by (auto simp: set_cover_def andthen_def mkdir_parent_def mkdir_parents_def requests_get_def
      write_bytes_def open_mp4_def open_mp3_def read_bytes_def save_mp4_def save_mp3_def
      Let_def
      split: if_splits option.splits sum.splits prod.splits fcontent.splits)

lemma set_cover_no_http:
  assumes "http_get E cover = None"
  shows "(\<exists>e. fst (set_cover E cover file_path w) = Inl e) \<and>
         files (snd (set_cover E cover file_path w)) = files w"
  using assms
  by (auto simp: set_cover_def andthen_def mkdir_parent_def mkdir_parents_def requests_get_def
      Let_def split: if_splits option.splits sum.splits prod.splits)

lemma set_cover_success_mp4:
  assumes "set_cover E cover (Some fp) w = (Inr (), w')"
    and "files w fp = Some (MP4File tg)" and "fp \<noteq> cover_path E"
  shows "\<exists>t. files w' fp = Some (MP4File t)"
  using assms
  by (auto simp: set_cover_def andthen_def mkdir_parent_def mkdir_parents_def requests_get_def
      write_bytes_def open_mp4_def open_mp3_def read_bytes_def save_mp4_def save_mp3_def
      Let_def
      split: if_splits option.splits sum.splits prod.splits fcontent.splits)

lemma save_mp4_ok:
  "files w fp = Some (MP4File tg) \<Longrightarrow> \<exists>w'. save_mp4 fp h w = (Inr (), w')"
  by (simp add: save_mp4_def split: option.splits)

lemma mkdir_parent_files: "files (snd (mkdir_parent fp w)) = files w"
  by (simp add: mkdir_parent_def mkdir_parents_def)

text \<open>
  The shape of a run of \<open>set_m4a_metadata\<close>: it stops before the thumbnail is used,
  with nothing done but the opening of the file, or it goes on with the cover and the
  final save.
\<close>

lemma set_m4a_shape:
  assumes "set_m4a_metadata E fp md w = (r, w')"
  shows "(w' = emit (EvOpen MP4 fp) w \<and> (\<exists>e. r = Inl e)) \<or>
         (\<exists>tg h v. files w fp = Some (MP4File tg) \<and> getitem md ''thumbnail'' = Inr v \<and>
            andthen (case v of
                       JString cover \<Rightarrow> set_cover E cover (Some fp) (emit (EvOpen MP4 fp) w)
                     | _ \<Rightarrow> andthen (mkdir_parent fp (emit (EvOpen MP4 fp) w))
                              (\<lambda>_ w. (Inl (RequestException []), w)))
              (\<lambda>_ w. save_mp4 fp h w) = (r, w'))"
proof -
  obtain a where o: "open_mp4 fp w = (a, emit (EvOpen MP4 fp) w)"
    using open_mp4_world [of fp w] by (cases "open_mp4 fp w") simp
  show ?thesis
  proof (cases a)
    case (Inl x)
    with assms o show ?thesis by (auto simp: set_m4a_metadata_def andthen_def)
  next
    case (Inr tg)
    with o have f: "files w fp = Some (MP4File tg)"
      by (auto simp: open_mp4_def split: option.splits fcontent.splits)
    from assms o Inr f show ?thesis
      by (simp add: set_m4a_metadata_def returning_def andthen_pair split: sum.splits) blast+
  qed
qed

lemma set_m4a_error_keeps:
  assumes r: "set_m4a_metadata E fp md w = (Inl e, w')" and ne: "fp \<noteq> cover_path E"
  shows "files w' fp = files w fp"
proof -
  let ?w0 = "emit (EvOpen MP4 fp) w"
  from set_m4a_shape [OF r] consider
    (early) "w' = ?w0" |
    (cover) tg h v where "files w fp = Some (MP4File tg)"
      "andthen (case v of
                  JString cover \<Rightarrow> set_cover E cover (Some fp) ?w0
                | _ \<Rightarrow> andthen (mkdir_parent fp ?w0) (\<lambda>_ w. (Inl (RequestException []), w)))
         (\<lambda>_ w. save_mp4 fp h w) = (Inl e, w')"
    by blast
  then show ?thesis
  proof cases
    case early
    then show ?thesis by simp
  next
    case cover
    show ?thesis
    proof (cases v)
      case (JString c)
      obtain r1 w1 where sc: "set_cover E c (Some fp) ?w0 = (r1, w1)"
        by (cases "set_cover E c (Some fp) ?w0")
      show ?thesis
      proof (cases r1)
        case (Inl e1)
        with cover JString sc have "set_cover E c (Some fp) ?w0 = (Inl e1, w')"
          by (simp add: andthen_def)
        from set_cover_error_keeps [OF this ne] show ?thesis by simp
      next
        case (Inr u)
        with sc have sc': "set_cover E c (Some fp) ?w0 = (Inr (), w1)" by simp
        from cover have "files ?w0 fp = Some (MP4File tg)" by simp
        from set_cover_success_mp4 [OF sc' this ne] obtain t where "files w1 fp = Some (MP4File t)"
          by blast
        from save_mp4_ok [OF this, of h] cover JString sc' show ?thesis
          by (auto simp: andthen_def)
      qed
    next
      case (JAtom x)
      with cover mkdir_parent_files [of fp ?w0] show ?thesis
        by (cases "mkdir_parent fp ?w0") (auto simp: andthen_def split: sum.splits)
    next
      case (JArray x)
      with cover mkdir_parent_files [of fp ?w0] show ?thesis
        by (cases "mkdir_parent fp ?w0") (auto simp: andthen_def split: sum.splits)
    next
      case (JObject x)
      with cover mkdir_parent_files [of fp ?w0] show ?thesis
        by (cases "mkdir_parent fp ?w0") (auto simp: andthen_def split: sum.splits)
    qed
  qed
qed

lemma set_m4a_no_http:
  assumes g: "getitem md ''thumbnail'' = Inr (JString cover)" and h: "http_get E cover = None"
  shows "(\<exists>e. fst (set_m4a_metadata E fp md w) = Inl e) \<and>
         files (snd (set_m4a_metadata E fp md w)) = files w"
proof -
  let ?w0 = "emit (EvOpen MP4 fp) w"
  obtain r w' where rw: "set_m4a_metadata E fp md w = (r, w')"
    by (cases "set_m4a_metadata E fp md w")
  from set_m4a_shape [OF rw] g consider
    (early) "w' = ?w0" "\<exists>e. r = Inl e" |
    (cover) hd where
      "andthen (set_cover E cover (Some fp) ?w0) (\<lambda>_ w. save_mp4 fp hd w) = (r, w')"
    by auto
  then show ?thesis
  proof cases
    case early
    with rw show ?thesis by auto
  next
    case cover
    from set_cover_no_http [OF h, of "Some fp" ?w0] cover rw
    show ?thesis
      by (cases "set_cover E cover (Some fp) ?w0") (auto simp: andthen_def)
  qed
qed

lemma set_opus_error_keeps:
  assumes "set_opus_metadata E fp md w = (Inl e, w')"
  shows "files w' = files w"
  using assms
  by (auto simp: set_opus_metadata_def returning_def andthen_def open_opus_def save_opus_def
      Let_def split: sum.splits option.splits fcontent.splits if_splits)

text \<open>
  Claim C3, as amended.  If \<open>set_m4a_metadata\<close> raises, the media file is as it was
  before the call, provided it is not the scratch cover file; if the HTTP fetch of the
  thumbnail fails, the operation raises and no file at all has changed.  The same holds
  of \<open>set_cover\<close> called alone.  If \<open>set_opus_metadata\<close> raises, no file has
  changed.  (In this model a save either fails without writing or succeeds, so every
  failure leaves the file as the last successful save left it.)
\<close>

theorem failure_leaves_media_file:
  "(fp \<noteq> cover_path E \<and> fst (set_m4a_metadata E fp md w) = Inl e \<longrightarrow>
      files (snd (set_m4a_metadata E fp md w)) fp = files w fp) \<and>
   (getitem md ''thumbnail'' = Inr (JString cover) \<and> http_get E cover = None \<longrightarrow>
      (\<exists>e. fst (set_m4a_metadata E fp md w) = Inl e) \<and>
      files (snd (set_m4a_metadata E fp md w)) = files w) \<and>
   (fp \<noteq> cover_path E \<and> fst (set_cover E cover (Some fp) w) = Inl e \<longrightarrow>
      files (snd (set_cover E cover (Some fp) w)) fp = files w fp) \<and>
   (http_get E cover = None \<longrightarrow>
      (\<exists>e. fst (set_cover E cover file_path w) = Inl e) \<and>
      files (snd (set_cover E cover file_path w)) = files w) \<and>
   (fst (set_opus_metadata E fp md w) = Inl e \<longrightarrow>
      files (snd (set_opus_metadata E fp md w)) = files w)"
proof (intro conjI impI)
  assume "fp \<noteq> cover_path E \<and> fst (set_m4a_metadata E fp md w) = Inl e"
  then have ne: "fp \<noteq> cover_path E"
    and r: "set_m4a_metadata E fp md w = (Inl e, snd (set_m4a_metadata E fp md w))"
    by (simp_all add: prod_eq_iff)
  from set_m4a_error_keeps [OF r ne] show "files (snd (set_m4a_metadata E fp md w)) fp = files w fp" .
next
  assume "getitem md ''thumbnail'' = Inr (JString cover) \<and> http_get E cover = None"
  then have g: "getitem md ''thumbnail'' = Inr (JString cover)" and h: "http_get E cover = None"
    by simp_all
  from set_m4a_no_http [OF g h] show "\<exists>e. fst (set_m4a_metadata E fp md w) = Inl e" by blast
  from set_m4a_no_http [OF g h] show "files (snd (set_m4a_metadata E fp md w)) = files w" by blast
next
  assume "fp \<noteq> cover_path E \<and> fst (set_cover E cover (Some fp) w) = Inl e"
  then have ne: "fp \<noteq> cover_path E"
    and r: "set_cover E cover (Some fp) w = (Inl e, snd (set_cover E cover (Some fp) w))"
    by (simp_all add: prod_eq_iff)
  from set_cover_error_keeps [OF r ne] show "files (snd (set_cover E cover (Some fp) w)) fp = files w fp" .
next
  assume h: "http_get E cover = None"
  from set_cover_no_http [OF h] show "\<exists>e. fst (set_cover E cover file_path w) = Inl e" by blast
  from set_cover_no_http [OF h] show "files (snd (set_cover E cover file_path w)) = files w" by blast
next
  assume "fst (set_opus_metadata E fp md w) = Inl e"
  then have "set_opus_metadata E fp md w = (Inl e, snd (set_opus_metadata E fp md w))"
    by (simp add: prod_eq_iff)
  then show "files (snd (set_opus_metadata E fp md w)) = files w"
    by (rule set_opus_error_keeps)
qed

text \<open>
  Claim C3 as stated fails when the media file lies at the scratch path: the fetched
  image is written over it, the tag library then cannot open it, and the operation
  raises before any save with the file already changed.
\<close>

theorem scratch_file_overwritten:
  "fst (set_m4a_metadata (example_env 0 []) (cover_path (example_env 0 [])) example_metadata scratch_world)
     = Inl (MutagenError (cover_path (example_env 0 []))) \<and>
   log (snd (set_m4a_metadata (example_env 0 []) (cover_path (example_env 0 [])) example_metadata
                 scratch_world)) =
     [EvOpen MP4 (cover_path (example_env 0 [])), EvMkdir [''home'', ''user''],
      EvHttpGet ''https://example.com/cover.jpg'', EvWrite (cover_path (example_env 0 [])),
      EvOpen MP4 (cover_path (example_env 0 []))] \<and>
   files scratch_world (cover_path (example_env 0 [])) = Some (MP4File (Some Map.empty)) \<and>
   files (snd (set_m4a_metadata (example_env 0 []) (cover_path (example_env 0 [])) example_metadata
                 scratch_world)) (cover_path (example_env 0 [])) = Some (Blob ''JFIF-bytes'')"
  by (simp add: example_run scratch_world_def)

theorem failure_leaves_media_file_witness:
  "track_m4a \<noteq> cover_path (example_env 0 []) \<and>
   fst (set_m4a_metadata (example_env 0 []) track_m4a (JObject []) example_world) = Inl (KeyError ''title'') \<and>
   files (snd (set_m4a_metadata (example_env 0 []) track_m4a (JObject []) example_world)) track_m4a =
     files example_world track_m4a \<and>
   getitem example_metadata ''thumbnail'' = Inr (JString ''https://example.com/cover.jpg'') \<and>
   http_get ((example_env 0 [])\<lparr>http_get := \<lambda>u. None\<rparr>) ''https://example.com/cover.jpg'' = None \<and>
   files (snd (set_m4a_metadata ((example_env 0 [])\<lparr>http_get := \<lambda>u. None\<rparr>) track_m4a example_metadata
                 example_world)) = files example_world \<and>
   fst (set_cover (example_env 0 []) ''https://example.com/cover.jpg'' (Some track_m4a) opus_world) =
     Inl (MutagenError track_m4a) \<and>
   files (snd (set_cover (example_env 0 []) ''https://example.com/cover.jpg'' (Some track_m4a) opus_world))
     track_m4a = files opus_world track_m4a \<and>
   files (snd (set_cover ((example_env 0 [])\<lparr>http_get := \<lambda>u. None\<rparr>) ''https://example.com/cover.jpg''
                 (Some track_m4a) example_world)) = files example_world \<and>
   fst (set_opus_metadata (example_env 0 []) track_opus (JObject []) opus_world) = Inl (KeyError ''title'') \<and>
   files (snd (set_opus_metadata (example_env 0 []) track_opus (JObject []) opus_world)) = files opus_world"
proof -
  let ?E = "example_env 0 []"
  let ?N = "(example_env 0 [])\<lparr>http_get := \<lambda>u. None\<rparr>"
  let ?u = "''https://example.com/cover.jpg''"
  have ne: "track_m4a \<noteq> cover_path ?E"
    by (simp add: track_m4a_def cover_path_def joinpath_def example_env_def)
  have a: "fst (set_m4a_metadata ?E track_m4a (JObject []) example_world) = Inl (KeyError ''title'')"
    by (simp add: set_m4a_metadata_def returning_def sbind_def andthen_def open_mp4_def getitem_def
        example_world_def)
  have b: "fst (set_opus_metadata ?E track_opus (JObject []) opus_world) = Inl (KeyError ''title'')"
    by (simp add: set_opus_metadata_def returning_def andthen_def open_opus_def getitem_def
        opus_world_def)
  have g: "getitem example_metadata ''thumbnail'' = Inr (JString ?u)"
    by (simp add: getitem_def example_metadata_def)
  have h: "http_get ?N ?u = None"
    by simp
  have c: "fst (set_cover ?E ?u (Some track_m4a) opus_world) = Inl (MutagenError track_m4a)"
    by (simp add: example_run opus_world_def track_opus_def)
  note t = failure_leaves_media_file
  from t [where fp = track_m4a and E = ?E and md = "JObject []" and w = example_world
      and e = "KeyError ''title''"] ne a
  have 1: "files (snd (set_m4a_metadata ?E track_m4a (JObject []) example_world)) track_m4a =
     files example_world track_m4a"
    by blast
  from t [where fp = track_m4a and E = ?N and md = example_metadata and w = example_world
      and cover = ?u] g h
  have 2: "files (snd (set_m4a_metadata ?N track_m4a example_metadata example_world)) = files example_world"
    by blast
  from t [where fp = track_m4a and E = ?E and cover = ?u and w = opus_world
      and e = "MutagenError track_m4a"] ne c
  have 3: "files (snd (set_cover ?E ?u (Some track_m4a) opus_world)) track_m4a = files opus_world track_m4a"
    by blast
  from t [where E = ?N and cover = ?u and file_path = "Some track_m4a" and w = example_world] h
  have 4: "files (snd (set_cover ?N ?u (Some track_m4a) example_world)) = files example_world"
    by blast
  from t [where fp = track_opus and E = ?E and md = "JObject []" and w = opus_world
      and e = "KeyError ''title''"] b
  have 5: "files (snd (set_opus_metadata ?E track_opus (JObject []) opus_world)) = files opus_world"
    by blast
  from ne a g h c b 1 2 3 4 5 show ?thesis by blast
qed

end
